theory Spec2Isabelle
  imports Main "HOL-Library.AList"
begin

section \<open>The shared registry of k3d: cli/registry.go\<close>

text \<open>
  The file manages one registry container shared by all clusters of a host. Its
  functions call helpers of the same package (container, volume and network
  primitives), the Docker client, the YAML codec and the mergo library, none of which
  is part of the file. They are the fields of the record \<open>runtime\<close> below: every
  theorem holds for whatever these helpers answer. Mutating helpers take the state of
  the container runtime (the type variable \<open>'w\<close>) and return the new one; queries only
  read it. The model threads that state together with a chronological trace of the
  mutating calls issued and the lines logged.
\<close>

subsection \<open>Constants\<close>

definition defaultRegistryContainerName :: string where
  "defaultRegistryContainerName = ''k3d-registry''"

definition defaultRegistryImage :: string where
  "defaultRegistryImage = ''registry:2''"

definition defaultRegistryPort :: int where
  "defaultRegistryPort = 5000"

definition defaultFullRegistriesPath :: string where
  "defaultFullRegistriesPath = ''/etc/rancher/k3s/registries.yaml''"

definition defaultRegistryMountPath :: string where
  "defaultRegistryMountPath = ''/var/lib/registry''"

definition defaultDockerHubAddress :: string where
  "defaultDockerHubAddress = ''docker.io''"

definition defaultDockerRegistryHubAddress :: string where
  "defaultDockerRegistryHubAddress = ''registry-1.docker.io''"

type_synonym labels = "(string \<times> string) list"

definition defaultRegistryContainerLabels :: labels where
  "defaultRegistryContainerLabels = [(''app'', ''k3d''), (''component'', ''registry'')]"

definition defaultRegistryVolumeLabels :: labels where
  "defaultRegistryVolumeLabels =
     [(''app'', ''k3d''), (''component'', ''registry''), (''managed'', ''true'')]"

subsection \<open>Errors, log lines and formatted integers\<close>

text \<open>
  A Go error is either a value handed over by a helper or a library (\<open>Err\<close>) or the
  result of \<open>fmt.Errorf\<close>: the format string, its string arguments and the error it
  embeds (through \<open>%w\<close> or \<open>%+v\<close>).
\<close>

datatype error = Err string | Errorf string "string list" error

datatype level = Info | Warn | Fatal

text \<open>An argument of a log line: a string, an integer or an error.\<close>

datatype arg = S string | I int | E error

text \<open>
  The verb \<open>%d\<close> and \<open>strconv.Itoa\<close> print an integer in decimal, with a minus sign
  when it is negative.
\<close>

fun digits :: "nat \<Rightarrow> string" where
  "digits n =
     (if n < 10 then [''0123456789'' ! n]
      else digits (n div 10) @ [''0123456789'' ! (n mod 10)])"

declare digits.simps [simp del]

definition itoa :: "int \<Rightarrow> string" where
  "itoa i = (if i < 0 then CHR ''-'' # digits (nat (- i)) else digits (nat i))"

subsection \<open>The registries document (structs copied from k3s)\<close>

record Mirror =
  Endpoints :: "string list"

text \<open>
  The values of \<open>configs\<close> and \<open>auths\<close> are \<open>interface{}\<close>: whatever the YAML decoder
  built. The file never looks into them.
\<close>

datatype yaml_value =
  YScalar string | YSeq "yaml_value list" | YMap "(string \<times> yaml_value) list"

text \<open>
  A Go map is an association list with one pair per key, or \<open>None\<close> for the nil map.
  Reading a nil map finds nothing; the code never writes to one.
\<close>

record Registry =
  Mirrors :: "(string \<times> Mirror) list option"
  Configs :: "(string \<times> yaml_value) list option"
  Auths :: "(string \<times> yaml_value) list option"

definition emptyRegistry :: Registry where
  "emptyRegistry = \<lparr>Mirrors = None, Configs = None, Auths = None\<rparr>"

definition lookupMirror :: "Registry \<Rightarrow> string \<Rightarrow> Mirror option" where
  "lookupMirror r k = (case Mirrors r of None \<Rightarrow> None | Some m \<Rightarrow> map_of m k)"

definition mirrorKeys :: "Registry \<Rightarrow> string set" where
  "mirrorKeys r = (case Mirrors r of None \<Rightarrow> {} | Some m \<Rightarrow> fst ` set m)"

subsection \<open>Cluster specification and container parameters\<close>

text \<open>
  Of the Docker API structs only the fields this file sets are kept. \<open>PortSet\<close> and
  \<open>PortMap\<close> are passed through from the port parser untouched.
\<close>

type_synonym PortSet = "string list"
type_synonym PortMap = "(string \<times> (string \<times> string) list) list"

record PublishedPorts =
  pp_ExposedPorts :: PortSet
  pp_PortBindings :: PortMap

record RestartPolicy =
  Name :: string

record HostConfig =
  PortBindings :: PortMap
  Privileged :: bool
  Init :: "bool option"
  RestartPolicy :: RestartPolicy
  Binds :: "string list"

record EndpointSettings =
  Aliases :: "string list"

record NetworkingConfig =
  EndpointsConfig :: "(string \<times> EndpointSettings) list"

record Config =
  Hostname :: string
  Image :: string
  ExposedPorts :: PortSet
  Labels :: labels
  Env :: "string list"

record Volume =
  vName :: string
  vLabels :: labels

text \<open>
  \<open>ClusterSpec\<close> is declared in another file of the package; these are the fields
  registry.go reads.
\<close>

record ClusterSpec =
  ClusterName :: string
  RegistryName :: string
  RegistryPort :: int
  RegistriesFile :: string
  RegistryEnabled :: bool
  RegistryCacheEnabled :: bool
  HostConfig :: HostConfig
  AutoRestart :: bool
  RegistryVolume :: string

subsection \<open>The helpers the file calls, and the state it threads\<close>

datatype event =
    Printf level string "arg list"
  | Println level "arg list"
  | CallStartContainer string
  | CallConnectContainerToNetwork string string "string list"
  | CallDisconnectContainerFromNetwork string string
  | CallRemoveContainer string
  | CallCreateVolume string labels
  | CallDeleteVolume string
  | CallCreateContainer Config HostConfig NetworkingConfig string
  | CallCopyToContainer string string string

record 'w state =
  world :: 'w
  trace :: "event list"

text \<open>
  A helper returning \<open>error\<close> gives \<open>error option\<close> (\<open>None\<close> is Go's nil); one
  returning a value and an error that the caller checks first gives a sum;
  \<open>getVolumeMountedIn\<close> gives both, because its caller goes on with the name after
  an error. \<open>getVolume\<close> gives \<open>None\<close> for the nil volume. \<open>clock\<close> is
  \<open>time.Now()\<close> in the layout the file formats it with.
\<close>

record 'w runtime =
  k3dNetworkName :: "string \<Rightarrow> string"
  newClient :: "'w \<Rightarrow> error option"
  containerList :: "(string \<times> string) set \<Rightarrow> bool \<Rightarrow> 'w \<Rightarrow> error + string list"
  startContainer :: "string \<Rightarrow> 'w \<Rightarrow> error option \<times> 'w"
  connectContainerToNetwork :: "string \<Rightarrow> string \<Rightarrow> string list \<Rightarrow> 'w \<Rightarrow> error option \<times> 'w"
  disconnectContainerFromNetwork :: "string \<Rightarrow> string \<Rightarrow> 'w \<Rightarrow> error option \<times> 'w"
  getContainerNetworks :: "string \<Rightarrow> 'w \<Rightarrow> error + string list"
  getVolumeMountedIn :: "string \<Rightarrow> string \<Rightarrow> 'w \<Rightarrow> string \<times> error option"
  removeContainer :: "string \<Rightarrow> 'w \<Rightarrow> error option \<times> 'w"
  getVolume :: "string \<Rightarrow> labels \<Rightarrow> 'w \<Rightarrow> error + Volume option"
  createVolume :: "string \<Rightarrow> labels \<Rightarrow> 'w \<Rightarrow> error option \<times> 'w"
  deleteVolume :: "string \<Rightarrow> 'w \<Rightarrow> error option \<times> 'w"
  createContainer :: "Config \<Rightarrow> HostConfig \<Rightarrow> NetworkingConfig \<Rightarrow> string \<Rightarrow> 'w \<Rightarrow> (error + string) \<times> 'w"
  copyToContainer :: "string \<Rightarrow> string \<Rightarrow> string \<Rightarrow> 'w \<Rightarrow> error option \<times> 'w"
  CreatePublishedPorts :: "string list \<Rightarrow> error + PublishedPorts"
  mergoMerge :: "HostConfig \<Rightarrow> HostConfig \<Rightarrow> error + HostConfig"
  readFile :: "string \<Rightarrow> 'w \<Rightarrow> error + string"
  yamlUnmarshal :: "string \<Rightarrow> error + Registry"
  yamlMarshal :: "Registry \<Rightarrow> error + string"
  clock :: "'w \<Rightarrow> string"

definition logf :: "level \<Rightarrow> string \<Rightarrow> arg list \<Rightarrow> 'w state \<Rightarrow> 'w state" where
  "logf l fmt args s = s\<lparr>trace := trace s @ [Printf l fmt args]\<rparr>"

definition logln :: "level \<Rightarrow> arg list \<Rightarrow> 'w state \<Rightarrow> 'w state" where
  "logln l args s = s\<lparr>trace := trace s @ [Println l args]\<rparr>"

text \<open>A mutating helper call: the event is recorded, the runtime state replaced.\<close>

definition call :: "event \<Rightarrow> ('w \<Rightarrow> 'r \<times> 'w) \<Rightarrow> 'w state \<Rightarrow> 'r \<times> 'w state" where
  "call ev f s = (case f (world s) of (r, w') \<Rightarrow> (r, \<lparr>world = w', trace = trace s @ [ev]\<rparr>))"

text \<open>The events a run from \<open>s\<close> to \<open>s'\<close> added.\<close>

definition issued :: "'w state \<Rightarrow> 'w state \<Rightarrow> event list" where
  "issued s s' = drop (length (trace s)) (trace s')"

subsection \<open>Format strings\<close>

text \<open>
  The format strings of the log lines and of the errors the file builds. \<open>nl\<close> is
  the line feed that ends most of them.
\<close>

definition nl :: string where
  "nl = [CHR 0x0A]"

definition fmtUsingRegistries :: string where
  "fmtUsingRegistries =
     ''Using registries definitions from %q...'' @ nl"

definition fmtCouldntCreateClient :: string where
  "fmtCouldntCreateClient =
     ''Couldn't create docker client'' @ nl @ ''%+v''"

definition fmtCouldntListContainers :: string where
  "fmtCouldntListContainers =
     '' Couldn't list containers: %w''"

definition fmtRemoving :: string where
  "fmtRemoving =
     ''...Removing the Registry'' @ nl"

definition fmtNoVolumeDetected :: string where
  "fmtNoVolumeDetected =
     ''...warning: could not detect registry volume'' @ nl"

definition fmtCouldntRemoveVolume :: string where
  "fmtCouldntRemoveVolume =
     '' Couldn't remove volume for registry %s'' @ nl @ ''%w''"

definition fmtKeepingVolume :: string where
  "fmtKeepingVolume =
     ''...(keeping the Registry volume %s)'' @ nl"

definition fmtRemovingVolume :: string where
  "fmtRemovingVolume =
     ''...Removing the Registry volume %s'' @ nl"

definition fmtDisconnecting :: string where
  "fmtDisconnecting =
     ''...Disconnecting Registry from the %s network'' @ nl"

definition fmtCouldntCheckVolume :: string where
  "fmtCouldntCheckVolume =
     '' Couldn't check if volume %s exists: %w''"

definition fmtUsingExistingVolume :: string where
  "fmtUsingExistingVolume =
     ''Using existing volume %s for the Registry'' @ nl"

definition fmtCreatingVolume :: string where
  "fmtCreatingVolume =
     ''Creating Registry volume %s...'' @ nl"

definition fmtCouldntCreateVolume :: string where
  "fmtCouldntCreateVolume =
     '' Couldn't create volume %s for registry: %w''"

definition fmtActivatingCache :: string where
  "fmtActivatingCache =
     ''Activating pull-through cache to Docker Hub'' @ nl"

definition fmtCouldntCreateContainer :: string where
  "fmtCouldntCreateContainer =
     '' Couldn't create registry container %s'' @ nl @ ''%w''"

definition fmtCouldntStartContainer :: string where
  "fmtCouldntStartContainer =
     '' Couldn't start container %s'' @ nl @ ''%w''"

definition fmtAlreadyPresent :: string where
  "fmtAlreadyPresent =
     ''Registry already present: ensuring that it's running and connecting it to the '%s' network...'' @ nl"

definition fmtFailedToStart :: string where
  "fmtFailedToStart =
     ''Failed to start registry container. Try starting it manually via `docker start %s`''"

definition fmtCreating :: string where
  "fmtCreating =
     ''Creating Registry as %s:%d...'' @ nl"

definition fmtBadPortSpecs :: string where
  "fmtBadPortSpecs =
     ''Error: failed to parse port specs %+v '' @ nl @ ''%+v''"

subsection \<open>writeRegistriesConfigInContainer\<close>

definition registryInternalAddress :: "ClusterSpec \<Rightarrow> string" where
  "registryInternalAddress spec = RegistryName spec @ '':'' @ itoa defaultRegistryPort"

definition registryExternalAddress :: "ClusterSpec \<Rightarrow> string" where
  "registryExternalAddress spec = RegistryName spec @ '':'' @ itoa (RegistryPort spec)"

text \<open>
  Lines 96 to 108: the document starts empty; when a base file is named it is read and
  decoded, and either failure is returned.
\<close>

definition loadPrivRegistries ::
  "'w runtime \<Rightarrow> ClusterSpec \<Rightarrow> 'w state \<Rightarrow> (error + Registry) \<times> 'w state" where
  "loadPrivRegistries R spec s =
     (if length (RegistriesFile spec) > 0 then
        (let s1 = logf Info fmtUsingRegistries
                    [S (RegistriesFile spec)] s
         in case readFile R (RegistriesFile spec) (world s1) of
              Inl err \<Rightarrow> (Inl err, s1)
            | Inr privRegistryFile \<Rightarrow>
                (case yamlUnmarshal R privRegistryFile of
                   Inl err \<Rightarrow> (Inl err, s1)
                 | Inr privRegistries \<Rightarrow> (Inr privRegistries, s1)))
      else (Inr emptyRegistry, s))"

text \<open>
  Lines 110 to 126: the mirrors the registry adds to the document. A nil or empty
  mirrors map is replaced by a fresh one first.
\<close>

definition addRegistryMirrors :: "ClusterSpec \<Rightarrow> Registry \<Rightarrow> Registry" where
  "addRegistryMirrors spec privRegistries =
     (if RegistryEnabled spec then
        (let m0 = (case Mirrors privRegistries of
                     None \<Rightarrow> []
                   | Some m \<Rightarrow> if length m = 0 then [] else m);
             m1 = AList.update (registryExternalAddress spec)
                    \<lparr>Endpoints = [''http://'' @ registryInternalAddress spec]\<rparr> m0;
             m2 = (if RegistryCacheEnabled spec
                   then AList.update defaultDockerHubAddress
                          \<lparr>Endpoints = [''http://'' @ registryInternalAddress spec]\<rparr> m1
                   else m1)
         in privRegistries\<lparr>Mirrors := Some m2\<rparr>)
      else privRegistries)"

text \<open>Lines 128 to 133: the document is serialised and copied into the node.\<close>

definition deliverRegistries ::
  "'w runtime \<Rightarrow> string \<Rightarrow> Registry \<Rightarrow> 'w state \<Rightarrow> error option \<times> 'w state" where
  "deliverRegistries R ID privRegistries s =
     (case yamlMarshal R privRegistries of
        Inl err \<Rightarrow> (Some err, s)
      | Inr d \<Rightarrow>
          call (CallCopyToContainer ID defaultFullRegistriesPath d)
            (copyToContainer R ID defaultFullRegistriesPath d) s)"

definition writeRegistriesConfigInContainer ::
  "'w runtime \<Rightarrow> ClusterSpec \<Rightarrow> string \<Rightarrow> 'w state \<Rightarrow> error option \<times> 'w state" where
  "writeRegistriesConfigInContainer R spec ID s =
     (case loadPrivRegistries R spec s of
        (Inl err, s1) \<Rightarrow> (Some err, s1)
      | (Inr privRegistries, s1) \<Rightarrow>
          deliverRegistries R ID (addRegistryMirrors spec privRegistries) s1)"

subsection \<open>getRegistryContainer and connectRegistryToNetwork\<close>

text \<open>
  The filter holds the fixed name and one \<open>label\<close> argument per default label. An
  empty identifier stands for "no registry".
\<close>

definition getRegistryContainer :: "'w runtime \<Rightarrow> 'w \<Rightarrow> error + string" where
  "getRegistryContainer R w =
     (case newClient R w of
        Some err \<Rightarrow>
          Inl (Errorf fmtCouldntCreateClient [] err)
      | None \<Rightarrow>
          (let cFilter =
                 insert (''name'', defaultRegistryContainerName)
                   ((\<lambda>(k, v). (''label'', k @ ''='' @ v)) ` set defaultRegistryContainerLabels)
           in case containerList R cFilter True w of
                Inl err \<Rightarrow> Inl (Errorf fmtCouldntListContainers [] err)
              | Inr containers \<Rightarrow>
                  (case containers of [] \<Rightarrow> Inr '''' | c # _ \<Rightarrow> Inr c)))"

definition connectRegistryToNetwork ::
  "'w runtime \<Rightarrow> string \<Rightarrow> string \<Rightarrow> string list \<Rightarrow> 'w state \<Rightarrow> error option \<times> 'w state" where
  "connectRegistryToNetwork R ID networkID aliases s =
     (case call (CallConnectContainerToNetwork ID networkID aliases)
             (connectContainerToNetwork R ID networkID aliases) s of
        (Some err, s1) \<Rightarrow> (Some err, s1)
      | (None, s1) \<Rightarrow> (None, s1))"

subsection \<open>disconnectRegistryFromNetwork\<close>

text \<open>
  Lines 314 to 343, the branch taken when no network is left: the volume mounted at the
  registry's data path is looked up (a failure is only logged), the container is
  removed (a failure is only logged), and the volume is deleted when it is found again
  under the ownership labels and the caller does not keep it.
\<close>

definition removeRegistry ::
  "'w runtime \<Rightarrow> string \<Rightarrow> bool \<Rightarrow> 'w state \<Rightarrow> error option \<times> 'w state" where
  "removeRegistry R cid keepRegistryVolume s2 =
     (let s3 = logf Info fmtRemoving [] s2;
          (volName, verr) = getVolumeMountedIn R cid defaultRegistryMountPath (world s3);
          s4 = (if verr \<noteq> None
                then logf Info fmtNoVolumeDetected [] s3
                else s3)
      in case call (CallRemoveContainer cid) (removeContainer R cid) s4 of
           (rerr, s5) \<Rightarrow>
             (let s6 = (case rerr of Some err \<Rightarrow> logln Info [E err] s5 | None \<Rightarrow> s5)
              in if volName \<noteq> '''' then
                   (case getVolume R volName defaultRegistryVolumeLabels (world s6) of
                      Inl err \<Rightarrow>
                        (Some (Errorf fmtCouldntRemoveVolume
                                 [defaultRegistryContainerName] err), s6)
                    | Inr None \<Rightarrow> (None, s6)
                    | Inr (Some vol) \<Rightarrow>
                        if keepRegistryVolume then
                          (None,
                           logf Info fmtKeepingVolume
                             [S volName] s6)
                        else
                          (let s7 = logf Info fmtRemovingVolume
                                      [S volName] s6
                           in case call (CallDeleteVolume volName) (deleteVolume R volName) s7 of
                                (Some err, s8) \<Rightarrow>
                                  (Some (Errorf
                                     fmtCouldntRemoveVolume
                                     [defaultRegistryContainerName] err), s8)
                              | (None, s8) \<Rightarrow> (None, s8)))
                 else (None, s6)))"

definition disconnectRegistryFromNetwork ::
  "'w runtime \<Rightarrow> string \<Rightarrow> bool \<Rightarrow> 'w state \<Rightarrow> error option \<times> 'w state" where
  "disconnectRegistryFromNetwork R name keepRegistryVolume s =
     (let netName = k3dNetworkName R name in
      case getRegistryContainer R (world s) of
        Inl err \<Rightarrow> (Some err, s)
      | Inr cid \<Rightarrow>
          if cid = '''' then (None, s)
          else
            (let s1 = logf Info fmtDisconnecting
                        [S netName] s
             in case call (CallDisconnectContainerFromNetwork cid netName)
                       (disconnectContainerFromNetwork R cid netName) s1 of
                  (Some err, s2) \<Rightarrow> (Some err, s2)
                | (None, s2) \<Rightarrow>
                    (case getContainerNetworks R cid (world s2) of
                       Inl err \<Rightarrow> (Some err, s2)
                     | Inr networks \<Rightarrow>
                         if length networks = 0
                         then removeRegistry R cid keepRegistryVolume s2
                         else (None, s2))))"

subsection \<open>createRegistry\<close>

text \<open>
  \<open>log.Fatalf\<close> logs and ends the process: the function then does not return to its
  caller.
\<close>

datatype 'a outcome = Returns 'a | ProcessExit

text \<open>The values \<open>createRegistry\<close> builds, under the names of its local variables.\<close>

definition containerLabels :: "ClusterSpec \<Rightarrow> string \<Rightarrow> labels" where
  "containerLabels spec created =
     AList.update ''hostname'' (RegistryName spec)
       (AList.update ''created'' created
          (fold (\<lambda>(k, v). AList.update k v) defaultRegistryContainerLabels []))"

definition registryPortSpec :: "ClusterSpec \<Rightarrow> string" where
  "registryPortSpec spec =
     ''0.0.0.0:'' @ itoa (RegistryPort spec) @ '':'' @ itoa defaultRegistryPort @ ''/tcp''"

definition baseHostConfig :: "PublishedPorts \<Rightarrow> HostConfig" where
  "baseHostConfig registryPublishedPorts =
     \<lparr>PortBindings = pp_PortBindings registryPublishedPorts,
      Privileged = True,
      Init = Some True,
      RestartPolicy = \<lparr>Name = ''''\<rparr>,
      Binds = []\<rparr>"

definition volLabels_of :: "ClusterSpec \<Rightarrow> labels" where
  "volLabels_of spec =
     fold (\<lambda>(k, v). AList.update k v) defaultRegistryVolumeLabels
       [(''registry-name'', RegistryName spec),
        (''registry-port'', itoa (RegistryPort spec))]"

definition networkingConfig :: "string \<Rightarrow> ClusterSpec \<Rightarrow> NetworkingConfig" where
  "networkingConfig netName spec =
     \<lparr>EndpointsConfig = [(netName, \<lparr>Aliases = [RegistryName spec]\<rparr>)]\<rparr>"

definition config :: "ClusterSpec \<Rightarrow> labels \<Rightarrow> PublishedPorts \<Rightarrow> Config" where
  "config spec cLabels registryPublishedPorts =
     \<lparr>Hostname = RegistryName spec,
      Image = defaultRegistryImage,
      ExposedPorts = pp_ExposedPorts registryPublishedPorts,
      Labels = cLabels,
      Env = []\<rparr>"

text \<open>
  Lines 192 to 218: the registry's volume. The assignment to \<open>spec.Volumes\<close> changes
  the function's own copy of the specification, which is not read again. A named
  volume is looked up with no label required; it is created with the ownership labels
  when it is missing, and bound at the registry's data path.
\<close>

definition registryVolume ::
  "'w runtime \<Rightarrow> ClusterSpec \<Rightarrow> HostConfig \<Rightarrow> 'w state
     \<Rightarrow> (error + HostConfig) \<times> 'w state" where
  "registryVolume R spec hostConfig s =
     (if RegistryVolume spec \<noteq> '''' then
        (case getVolume R (RegistryVolume spec) [] (world s) of
           Inl err \<Rightarrow>
             (Inl (Errorf fmtCouldntCheckVolume
                     [RegistryVolume spec] err), s)
         | Inr vol \<Rightarrow>
             (let mount = RegistryVolume spec @ '':'' @ defaultRegistryMountPath
              in case vol of
                   Some v \<Rightarrow>
                     (Inr (hostConfig\<lparr>Binds := [mount]\<rparr>),
                      logf Info fmtUsingExistingVolume
                        [S (RegistryVolume spec)] s)
                 | None \<Rightarrow>
                     (let s1 = logf Info fmtCreatingVolume
                                 [S (RegistryVolume spec)] s
                      in case call (CallCreateVolume (RegistryVolume spec) (volLabels_of spec))
                                (createVolume R (RegistryVolume spec) (volLabels_of spec)) s1 of
                           (Some err, s2) \<Rightarrow>
                             (Inl (Errorf fmtCouldntCreateVolume
                                     [RegistryVolume spec] err), s2)
                         | (None, s2) \<Rightarrow> (Inr (hostConfig\<lparr>Binds := [mount]\<rparr>), s2))))
      else (Inr hostConfig, s))"

text \<open>
  Lines 236 to 243: with the cache enabled the registry gets one environment variable.
\<close>

definition cacheEnv :: "ClusterSpec \<Rightarrow> Config \<Rightarrow> Config" where
  "cacheEnv spec config0 =
     (if RegistryCacheEnabled spec
      then config0\<lparr>Env := [''REGISTRY_PROXY_REMOTEURL'' @ ''='' @
                              (''https://'' @ defaultDockerRegistryHubAddress)]\<rparr>
      else config0)"

text \<open>Lines 220 to 254: the container is created under the fixed name and started.\<close>

definition runRegistry ::
  "'w runtime \<Rightarrow> ClusterSpec \<Rightarrow> string \<Rightarrow> labels \<Rightarrow> PublishedPorts \<Rightarrow> HostConfig
     \<Rightarrow> 'w state \<Rightarrow> (error + string) \<times> 'w state" where
  "runRegistry R spec netName cLabels registryPublishedPorts hostConfig s =
     (let config1 = cacheEnv spec (config spec cLabels registryPublishedPorts);
          s1 = (if RegistryCacheEnabled spec
                then logf Info fmtActivatingCache [] s
                else s)
      in case call (CallCreateContainer config1 hostConfig (networkingConfig netName spec)
                      defaultRegistryContainerName)
                (createContainer R config1 hostConfig (networkingConfig netName spec)
                   defaultRegistryContainerName) s1 of
           (Inl err, s2) \<Rightarrow>
             (Inl (Errorf fmtCouldntCreateContainer
                     [defaultRegistryContainerName] err), s2)
         | (Inr cid, s2) \<Rightarrow>
             (case call (CallStartContainer cid) (startContainer R cid) s2 of
                (Some err, s3) \<Rightarrow>
                  (Inl (Errorf fmtCouldntStartContainer
                          [defaultRegistryContainerName] err), s3)
              | (None, s3) \<Rightarrow> (Inr cid, s3)))"

text \<open>Lines 188 to 190: the restart policy asked for by the specification.\<close>

definition autoRestart :: "ClusterSpec \<Rightarrow> HostConfig \<Rightarrow> HostConfig" where
  "autoRestart spec hostConfig =
     (if AutoRestart spec
      then hostConfig\<lparr>RestartPolicy :=
             (RestartPolicy hostConfig)\<lparr>Name := ''unless-stopped''\<rparr>\<rparr>
      else hostConfig)"

text \<open>Line 160: the log line that opens the creation.\<close>

definition announceCreation :: "ClusterSpec \<Rightarrow> 'w state \<Rightarrow> 'w state" where
  "announceCreation spec s =
     logf Info fmtCreating
       [S (RegistryName spec), I (RegistryPort spec)] s"

definition createRegistry ::
  "'w runtime \<Rightarrow> ClusterSpec \<Rightarrow> 'w state \<Rightarrow> (error + string) outcome \<times> 'w state" where
  "createRegistry R spec s =
     (let netName = k3dNetworkName R (ClusterName spec) in
      case getRegistryContainer R (world s) of
        Inl err \<Rightarrow> (Returns (Inl err), s)
      | Inr cid \<Rightarrow>
          if cid \<noteq> '''' then
            (let s1 = logf Info
                        fmtAlreadyPresent
                        [S netName] s
             in case call (CallStartContainer cid) (startContainer R cid) s1 of
                  (serr, s2) \<Rightarrow>
                    (let s3 = (if serr \<noteq> None
                               then logf Warn
                                      fmtFailedToStart
                                      [S cid] s2
                               else s2)
                     in case connectRegistryToNetwork R cid netName [RegistryName spec] s3 of
                          (Some err, s4) \<Rightarrow> (Returns (Inl err), s4)
                        | (None, s4) \<Rightarrow> (Returns (Inr cid), s4)))
          else
            (let s1 = announceCreation spec s;
                 cLabels = containerLabels spec (clock R (world s1))
             in case CreatePublishedPorts R [registryPortSpec spec] of
                  Inl err \<Rightarrow>
                    (ProcessExit,
                     logf Fatal fmtBadPortSpecs
                       [S (registryPortSpec spec), E err] s1)
                | Inr registryPublishedPorts \<Rightarrow>
                    (case mergoMerge R (baseHostConfig registryPublishedPorts) (HostConfig spec) of
                       Inl err \<Rightarrow> (Returns (Inl err), s1)
                     | Inr hostConfig1 \<Rightarrow>
                         (case registryVolume R spec (autoRestart spec hostConfig1) s1 of
                            (Inl err, s2) \<Rightarrow> (Returns (Inl err), s2)
                          | (Inr hostConfig, s2) \<Rightarrow>
                              (case runRegistry R spec netName cLabels registryPublishedPorts
                                      hostConfig s2 of
                                 (r, s3) \<Rightarrow> (Returns r, s3))))))"

subsection \<open>A sample runtime\<close>

text \<open>
  Modelled from the spec: the Runtime Adapter (sections 2 and 6), which the file only
  calls. This small host runs the model on concrete inputs; no general theorem below
  depends on it. It holds at most one registry container, with the networks attached
  to it and the volume mounted at its data path, the volumes with their labels, the
  files of the host and the files copied into nodes. Its calls are idempotent, as the
  spec assumes: disconnecting a network that is not attached succeeds and changes
  nothing. The sample specifications
  carry no host-configuration override, and the sample merge returns the baseline.
  The sample port parser rejects the host port 70000, which is out of range. The
  sample codec knows two base files.
\<close>

record host =
  registryNetworks :: "string list option"
  registryMount :: string
  volumes :: "(string \<times> labels) list"
  files :: "(string \<times> string) list"
  nodeFiles :: "((string \<times> string) \<times> string) list"

definition sampleBaseFile :: string where
  "sampleBaseFile = ''mirrors: {example.org: {endpoint: [https://mirror.example.org]}}''"

definition sampleBase :: Registry where
  "sampleBase =
     \<lparr>Mirrors = Some [(''example.org'', \<lparr>Endpoints = [''https://mirror.example.org'']\<rparr>)],
      Configs = None, Auths = None\<rparr>"

definition hubBaseFile :: string where
  "hubBaseFile = ''mirrors: {docker.io: {endpoint: [https://hub.example.org]}}''"

definition hubBase :: Registry where
  "hubBase =
     \<lparr>Mirrors = Some [(''docker.io'', \<lparr>Endpoints = [''https://hub.example.org'']\<rparr>)],
      Configs = None, Auths = None\<rparr>"

definition renderRegistry :: "Registry \<Rightarrow> string" where
  "renderRegistry r =
     concat (map (\<lambda>(k, m). k @ '' -> '' @ concat (Endpoints m) @ ''; '')
               (case Mirrors r of None \<Rightarrow> [] | Some m \<Rightarrow> m))"

definition sampleRuntime :: "host runtime" where
  "sampleRuntime =
     \<lparr>k3dNetworkName = (\<lambda>n. ''k3d-'' @ n),
      newClient = (\<lambda>w. None),
      containerList = (\<lambda>f a w.
        case registryNetworks w of None \<Rightarrow> Inr [] | Some ns \<Rightarrow> Inr [''c0ffee'']),
      startContainer = (\<lambda>cid w. (None, w)),
      connectContainerToNetwork = (\<lambda>cid net aliases w.
        (None, w\<lparr>registryNetworks := map_option (List.insert net) (registryNetworks w)\<rparr>)),
      disconnectContainerFromNetwork = (\<lambda>cid net w.
        (None, w\<lparr>registryNetworks := map_option (removeAll net) (registryNetworks w)\<rparr>)),
      getContainerNetworks = (\<lambda>cid w.
        case registryNetworks w of
          None \<Rightarrow> Inl (Err ''no such container'')
        | Some ns \<Rightarrow> Inr ns),
      getVolumeMountedIn = (\<lambda>cid path w.
        (if path = defaultRegistryMountPath then registryMount w else '''', None)),
      removeContainer = (\<lambda>cid w. (None, w\<lparr>registryNetworks := None\<rparr>)),
      getVolume = (\<lambda>name ls w.
        case map_of (volumes w) name of
          None \<Rightarrow> Inr None
        | Some vl \<Rightarrow>
            if list_all (\<lambda>l. l \<in> set vl) ls
            then Inr (Some \<lparr>vName = name, vLabels = vl\<rparr>)
            else Inr None),
      createVolume = (\<lambda>name ls w. (None, w\<lparr>volumes := AList.update name ls (volumes w)\<rparr>)),
      deleteVolume = (\<lambda>name w. (None, w\<lparr>volumes := AList.delete name (volumes w)\<rparr>)),
      createContainer = (\<lambda>cfg hc nc name w.
        (Inr ''c0ffee'',
         w\<lparr>registryNetworks := Some (map fst (EndpointsConfig nc)),
           registryMount := (case Binds hc of
                               [] \<Rightarrow> ''''
                             | b # _ \<Rightarrow> takeWhile (\<lambda>c. c \<noteq> CHR '':'') b)\<rparr>)),
      copyToContainer = (\<lambda>ID path d w.
        (None, w\<lparr>nodeFiles := AList.update (ID, path) d (nodeFiles w)\<rparr>)),
      CreatePublishedPorts = (\<lambda>specs.
        if ''0.0.0.0:70000:5000/tcp'' \<in> set specs then Inl (Err ''invalid hostPort: 70000'')
        else
        Inr \<lparr>pp_ExposedPorts = [''5000/tcp''],
             pp_PortBindings = [(''5000/tcp'', map (\<lambda>p. (''0.0.0.0'', p)) specs)]\<rparr>),
      mergoMerge = (\<lambda>dst src. Inr dst),
      readFile = (\<lambda>path w.
        case map_of (files w) path of
          None \<Rightarrow> Inl (Err ''no such file or directory'')
        | Some d \<Rightarrow> Inr d),
      yamlUnmarshal = (\<lambda>d.
        if d = sampleBaseFile then Inr sampleBase
        else if d = hubBaseFile then Inr hubBase
        else Inl (Err ''yaml: unmarshal errors'')),
      yamlMarshal = (\<lambda>r. Inr (renderRegistry r)),
      clock = (\<lambda>w. ''2020-01-01 00:00:00'')\<rparr>"

definition emptyHostConfig :: HostConfig where
  "emptyHostConfig =
     \<lparr>PortBindings = [], Privileged = False, Init = None,
      RestartPolicy = \<lparr>Name = ''''\<rparr>, Binds = []\<rparr>"

definition sampleSpec :: ClusterSpec where
  "sampleSpec =
     \<lparr>ClusterName = ''a'',
      RegistryName = ''registry.local'',
      RegistryPort = 5001,
      RegistriesFile = ''/home/u/.k3d/registries.yaml'',
      RegistryEnabled = True,
      RegistryCacheEnabled = False,
      HostConfig = emptyHostConfig,
      AutoRestart = False,
      RegistryVolume = ''data''\<rparr>"

text \<open>A host with no registry, and one whose registry serves the cluster \<open>a\<close> only.\<close>

definition emptyHost :: host where
  "emptyHost =
     \<lparr>registryNetworks = None, registryMount = '''', volumes = [],
      files = [(''/home/u/.k3d/registries.yaml'', sampleBaseFile),
               (''/home/u/hub.yaml'', hubBaseFile)],
      nodeFiles = []\<rparr>"

definition hostA :: host where
  "hostA =
     emptyHost\<lparr>registryNetworks := Some [''k3d-a''], registryMount := ''data'',
       volumes := [(''data'', volLabels_of sampleSpec)]\<rparr>"

definition start :: "'w \<Rightarrow> 'w state" where
  "start w = \<lparr>world = w, trace = []\<rparr>"

text \<open>
  Further hosts: the registry serves two clusters; the volume at the data path lacks
  the label \<open>managed\<close>; the registry has no network left.
\<close>

definition hostAB :: host where
  "hostAB = hostA\<lparr>registryNetworks := Some [''k3d-a'', ''k3d-b'']\<rparr>"

definition hostForeign :: host where
  "hostForeign =
     hostA\<lparr>volumes := [(''data'', [(''app'', ''k3d''), (''component'', ''registry'')])]\<rparr>"

definition hostDetached :: host where
  "hostDetached = hostA\<lparr>registryNetworks := Some []\<rparr>"

text \<open>
  A runtime that reports the disconnection of a network that is not attached as an
  error, as Docker does.
\<close>

definition strictRuntime :: "host runtime" where
  "strictRuntime =
     sampleRuntime\<lparr>disconnectContainerFromNetwork := (\<lambda>cid net w.
       case registryNetworks w of
         None \<Rightarrow> (Some (Err ''no such container''), w)
       | Some ns \<Rightarrow>
           if net \<in> set ns
           then (None, w\<lparr>registryNetworks := Some (removeAll net ns)\<rparr>)
           else (Some (Err ''container is not connected to the network''), w))\<rparr>"

text \<open>A runtime that is lost after the disconnection: the network query fails.\<close>

definition lostRuntime :: "host runtime" where
  "lostRuntime =
     sampleRuntime\<lparr>getContainerNetworks := (\<lambda>cid w. Inl (Err ''connection refused''))\<rparr>"

text \<open>
  Runtimes on which one step of the creation fails, and a cluster specification with
  no volume. \<open>samplePorts\<close> is what the sample port parser answers for the sample
  specification.
\<close>

definition mergeFails :: "host runtime" where
  "mergeFails =
     sampleRuntime\<lparr>mergoMerge := (\<lambda>dst src. Inl (Err ''src and dst must be of same type''))\<rparr>"

definition volumeLookupFails :: "host runtime" where
  "volumeLookupFails =
     sampleRuntime\<lparr>getVolume := (\<lambda>name ls w. Inl (Err ''connection refused''))\<rparr>"

definition volumeCreateFails :: "host runtime" where
  "volumeCreateFails =
     sampleRuntime\<lparr>createVolume := (\<lambda>name ls w. (Some (Err ''no space left on device''), w))\<rparr>"

definition containerCreateFails :: "host runtime" where
  "containerCreateFails =
     sampleRuntime\<lparr>createContainer := (\<lambda>cfg hc nc name w.
       (Inl (Err ''the container name is already in use''), w))\<rparr>"

definition containerStartFails :: "host runtime" where
  "containerStartFails =
     sampleRuntime\<lparr>startContainer := (\<lambda>cid w. (Some (Err ''port is already allocated''), w))\<rparr>"

definition samplePorts :: PublishedPorts where
  "samplePorts =
     \<lparr>pp_ExposedPorts = [''5000/tcp''],
      pp_PortBindings = [(''5000/tcp'', [(''0.0.0.0'', ''0.0.0.0:5001:5000/tcp'')])]\<rparr>"

definition noVolumeSpec :: ClusterSpec where
  "noVolumeSpec = sampleSpec\<lparr>RegistryVolume := ''''\<rparr>"

definition bigPortSpec :: ClusterSpec where
  "bigPortSpec = sampleSpec\<lparr>RegistryPort := 70000\<rparr>"

definition clusterB :: ClusterSpec where
  "clusterB = sampleSpec\<lparr>ClusterName := ''b''\<rparr>"

text \<open>
  Further specifications: with the pull-through cache; with the cache and the base
  file that already redirects \<open>docker.io\<close>; with the cache flag but the registry
  disabled; and the latter with no base file.
\<close>

definition cacheSpec :: ClusterSpec where
  "cacheSpec = sampleSpec\<lparr>RegistryCacheEnabled := True\<rparr>"

definition hubSpec :: ClusterSpec where
  "hubSpec = cacheSpec\<lparr>RegistriesFile := ''/home/u/hub.yaml''\<rparr>"

definition disabledSpec :: ClusterSpec where
  "disabledSpec = cacheSpec\<lparr>RegistryEnabled := False\<rparr>"

definition bareSpec :: ClusterSpec where
  "bareSpec = disabledSpec\<lparr>RegistriesFile := ''''\<rparr>"

section \<open>Properties\<close>

subsection \<open>Shared facts about the teardown\<close>

text \<open>
  Once the registry is found, the teardown logs, disconnects the cluster's network and
  decides on the answer of the network query.
\<close>

lemma teardown_found:
  assumes "getRegistryContainer R (world s) = Inr cid" and "cid \<noteq> ''''"
    and "disconnectContainerFromNetwork R cid (k3dNetworkName R name) (world s) = (derr, w1)"
  shows "disconnectRegistryFromNetwork R name keep s =
     (let s2 = \<lparr>world = w1,
                 trace = trace s @
                   [Printf Info fmtDisconnecting
                      [S (k3dNetworkName R name)],
                    CallDisconnectContainerFromNetwork cid (k3dNetworkName R name)]\<rparr>
      in case derr of
           Some err \<Rightarrow> (Some err, s2)
         | None \<Rightarrow>
             (case getContainerNetworks R cid w1 of
                Inl err \<Rightarrow> (Some err, s2)
              | Inr networks \<Rightarrow>
                  if networks = [] then removeRegistry R cid keep s2 else (None, s2)))"
  using assms
  by (simp add: disconnectRegistryFromNetwork_def Let_def call_def logf_def
      split: option.splits sum.splits)

text \<open>
  The removal branch issues the removal of the container it was given and of no other,
  and deletes a volume exactly when one is mounted at the data path, is found again
  under the ownership labels, and is not kept.
\<close>

lemma removeRegistry_removes:
  assumes "trace s2 = trace s @ pre"
  shows "CallRemoveContainer c \<in> set (issued s (snd (removeRegistry R cid keep s2)))
         \<longleftrightarrow> CallRemoveContainer c \<in> set pre \<or> c = cid"
  using assms
  by (auto simp add: removeRegistry_def issued_def Let_def call_def logf_def logln_def
      split: option.splits sum.splits prod.splits)

lemma removeRegistry_deletes:
  assumes "trace s2 = trace s @ pre"
    and "getVolumeMountedIn R cid defaultRegistryMountPath (world s2) = (vol, verr)"
    and "removeContainer R cid (world s2) = (rerr, w2)"
  shows "CallDeleteVolume v \<in> set (issued s (snd (removeRegistry R cid keep s2)))
         \<longleftrightarrow> CallDeleteVolume v \<in> set pre \<or>
             (v = vol \<and> vol \<noteq> '''' \<and> \<not> keep \<and>
              (\<exists>x. getVolume R vol defaultRegistryVolumeLabels w2 = Inr (Some x)))"
  using assms
  by (auto simp add: removeRegistry_def issued_def Let_def call_def logf_def logln_def
      split: option.splits sum.splits prod.splits)

text \<open>The teardown that reaches the removal branch.\<close>

lemma teardown_removal:
  assumes "getRegistryContainer R (world s) = Inr cid" and "cid \<noteq> ''''"
    and "disconnectContainerFromNetwork R cid (k3dNetworkName R name) (world s) = (None, w1)"
    and "getContainerNetworks R cid w1 = Inr []"
  shows "disconnectRegistryFromNetwork R name keep s =
     removeRegistry R cid keep
       \<lparr>world = w1,
        trace = trace s @
          [Printf Info fmtDisconnecting
             [S (k3dNetworkName R name)],
           CallDisconnectContainerFromNetwork cid (k3dNetworkName R name)]\<rparr>"
  using teardown_found [OF assms(1,2,3), of keep] assms(4) by simp

text \<open>The teardown that finds a network left.\<close>

lemma teardown_kept:
  assumes "getRegistryContainer R (world s) = Inr cid" and "cid \<noteq> ''''"
    and "disconnectContainerFromNetwork R cid (k3dNetworkName R name) (world s) = (None, w1)"
    and "getContainerNetworks R cid w1 = Inr networks" and "networks \<noteq> []"
  shows "disconnectRegistryFromNetwork R name keep s =
     (None,
      \<lparr>world = w1,
        trace = trace s @
          [Printf Info fmtDisconnecting
             [S (k3dNetworkName R name)],
           CallDisconnectContainerFromNetwork cid (k3dNetworkName R name)]\<rparr>)"
  using teardown_found [OF assms(1,2,3), of keep] assms(4,5) by simp

subsection \<open>C1: the registry is removed exactly when no network is left\<close>

text \<open>
  Claim C1. The registry exists, the cluster's network has been disconnected and the
  runtime has listed the networks still attached. Then the teardown issues the removal
  of the registry container if and only if that list is empty. When a network is
  left, the teardown succeeds after the disconnection and issues no removal of a
  container and no deletion of a volume. (The removal is best effort: its failure is
  only logged.)
\<close>

theorem removed_iff_no_network_left:
  assumes "getRegistryContainer R (world s) = Inr cid" and "cid \<noteq> ''''"
    and "disconnectContainerFromNetwork R cid (k3dNetworkName R name) (world s) = (None, w1)"
    and "getContainerNetworks R cid w1 = Inr networks"
  shows "(CallRemoveContainer cid
            \<in> set (issued s (snd (disconnectRegistryFromNetwork R name keep s)))
          \<longleftrightarrow> networks = []) \<and>
         (networks \<noteq> [] \<longrightarrow>
            fst (disconnectRegistryFromNetwork R name keep s) = None \<and>
            world (snd (disconnectRegistryFromNetwork R name keep s)) = w1 \<and>
            (\<forall>c. CallRemoveContainer c
                   \<notin> set (issued s (snd (disconnectRegistryFromNetwork R name keep s)))) \<and>
            (\<forall>v. CallDeleteVolume v
                   \<notin> set (issued s (snd (disconnectRegistryFromNetwork R name keep s)))))"
proof (cases "networks = []")
  case True
  with assms(4) have nets: "getContainerNetworks R cid w1 = Inr []" by simp
  have "CallRemoveContainer cid
          \<in> set (issued s (snd (disconnectRegistryFromNetwork R name keep s)))"
    unfolding teardown_removal [OF assms(1,2,3) nets]
    by (subst removeRegistry_removes) simp_all
  with True show ?thesis by simp
next
  case False
  show ?thesis
    unfolding teardown_kept [OF assms False]
    using False by (simp add: issued_def)
qed

text \<open>
  On the sample host the registry serves the cluster \<open>a\<close> only: detaching \<open>a\<close>
  removes the container. With the clusters \<open>a\<close> and \<open>b\<close> attached, detaching
  \<open>a\<close> leaves the registry in place.
\<close>

theorem removed_iff_no_network_left_witness:
  "getRegistryContainer sampleRuntime (world (start hostA)) = Inr ''c0ffee'' \<and>
   disconnectContainerFromNetwork sampleRuntime ''c0ffee'' (k3dNetworkName sampleRuntime ''a'')
     (world (start hostA)) = (None, hostDetached) \<and>
   getContainerNetworks sampleRuntime ''c0ffee'' hostDetached = Inr [] \<and>
   CallRemoveContainer ''c0ffee''
     \<in> set (issued (start hostA)
              (snd (disconnectRegistryFromNetwork sampleRuntime ''a'' False (start hostA)))) \<and>
   getRegistryContainer sampleRuntime (world (start hostAB)) = Inr ''c0ffee'' \<and>
   disconnectContainerFromNetwork sampleRuntime ''c0ffee'' (k3dNetworkName sampleRuntime ''a'')
     (world (start hostAB)) = (None, hostAB\<lparr>registryNetworks := Some [''k3d-b'']\<rparr>) \<and>
   getContainerNetworks sampleRuntime ''c0ffee'' (hostAB\<lparr>registryNetworks := Some [''k3d-b'']\<rparr>)
     = Inr [''k3d-b''] \<and>
   CallRemoveContainer ''c0ffee''
     \<notin> set (issued (start hostAB)
              (snd (disconnectRegistryFromNetwork sampleRuntime ''a'' False (start hostAB)))) \<and>
   fst (disconnectRegistryFromNetwork sampleRuntime ''a'' False (start hostAB)) = None"
proof -
  have ne: "''c0ffee'' \<noteq> ''''" by simp
  have a1: "getRegistryContainer sampleRuntime (world (start hostA)) = Inr ''c0ffee''"
    by (simp add: getRegistryContainer_def sampleRuntime_def start_def hostA_def emptyHost_def)
  have a2: "disconnectContainerFromNetwork sampleRuntime ''c0ffee''
              (k3dNetworkName sampleRuntime ''a'') (world (start hostA)) = (None, hostDetached)"
    by (simp add: sampleRuntime_def start_def hostA_def hostDetached_def emptyHost_def)
  have a3: "getContainerNetworks sampleRuntime ''c0ffee'' hostDetached = Inr []"
    by (simp add: sampleRuntime_def hostA_def hostDetached_def emptyHost_def)
  have b1: "getRegistryContainer sampleRuntime (world (start hostAB)) = Inr ''c0ffee''"
    by (simp add: getRegistryContainer_def sampleRuntime_def start_def hostAB_def hostA_def
        emptyHost_def)
  have b2: "disconnectContainerFromNetwork sampleRuntime ''c0ffee''
              (k3dNetworkName sampleRuntime ''a'') (world (start hostAB))
            = (None, hostAB\<lparr>registryNetworks := Some [''k3d-b'']\<rparr>)"
    by (simp add: sampleRuntime_def start_def hostAB_def hostA_def emptyHost_def)
  have b3: "getContainerNetworks sampleRuntime ''c0ffee''
              (hostAB\<lparr>registryNetworks := Some [''k3d-b'']\<rparr>) = Inr [''k3d-b'']"
    by (simp add: sampleRuntime_def hostAB_def hostA_def emptyHost_def)
  have A: "CallRemoveContainer ''c0ffee''
     \<in> set (issued (start hostA)
              (snd (disconnectRegistryFromNetwork sampleRuntime ''a'' False (start hostA))))"
    using removed_iff_no_network_left [OF a1 ne a2 a3, of False] by blast
  have B: "CallRemoveContainer ''c0ffee''
     \<notin> set (issued (start hostAB)
              (snd (disconnectRegistryFromNetwork sampleRuntime ''a'' False (start hostAB)))) \<and>
     fst (disconnectRegistryFromNetwork sampleRuntime ''a'' False (start hostAB)) = None"
    using removed_iff_no_network_left [OF b1 ne b2 b3, of False] by blast
  from a1 a2 a3 A b1 b2 b3 B show ?thesis by (intro conjI) (erule conjunct1 conjunct2 | assumption)+
qed

subsection \<open>C4: teardown without a registry, or for a cluster that was never attached\<close>

text \<open>
  Claim C4, as the code has it. When the locator finds no registry, the teardown
  succeeds at once: no call is issued, nothing is logged, the runtime is untouched.
  When a registry exists, the teardown does not ask whether the cluster was attached:
  it issues the disconnection of the cluster's network. If the runtime reports an
  error for it, the teardown returns that error unchanged and does nothing else. If
  the runtime accepts it and a network is still attached, the teardown succeeds with
  no further call.
\<close>

theorem teardown_without_attachment:
  "(getRegistryContainer R (world s) = Inr '''' \<longrightarrow>
      disconnectRegistryFromNetwork R name keep s = (None, s)) \<and>
   (\<forall>cid err w1.
      getRegistryContainer R (world s) = Inr cid \<and> cid \<noteq> '''' \<and>
      disconnectContainerFromNetwork R cid (k3dNetworkName R name) (world s) = (Some err, w1)
      \<longrightarrow>
      disconnectRegistryFromNetwork R name keep s =
        (Some err,
         \<lparr>world = w1,
           trace = trace s @
             [Printf Info fmtDisconnecting [S (k3dNetworkName R name)],
              CallDisconnectContainerFromNetwork cid (k3dNetworkName R name)]\<rparr>)) \<and>
   (\<forall>cid w1 networks.
      getRegistryContainer R (world s) = Inr cid \<and> cid \<noteq> '''' \<and>
      disconnectContainerFromNetwork R cid (k3dNetworkName R name) (world s) = (None, w1) \<and>
      getContainerNetworks R cid w1 = Inr networks \<and> networks \<noteq> []
      \<longrightarrow>
      disconnectRegistryFromNetwork R name keep s =
        (None,
         \<lparr>world = w1,
           trace = trace s @
             [Printf Info fmtDisconnecting [S (k3dNetworkName R name)],
              CallDisconnectContainerFromNetwork cid (k3dNetworkName R name)]\<rparr>))"
proof (intro conjI allI impI)
  assume "getRegistryContainer R (world s) = Inr ''''"
  then show "disconnectRegistryFromNetwork R name keep s = (None, s)"
    by (simp add: disconnectRegistryFromNetwork_def)
next
  fix cid err w1
  assume h: "getRegistryContainer R (world s) = Inr cid \<and> cid \<noteq> '''' \<and>
      disconnectContainerFromNetwork R cid (k3dNetworkName R name) (world s) = (Some err, w1)"
  then have "getRegistryContainer R (world s) = Inr cid" and "cid \<noteq> ''''"
    and "disconnectContainerFromNetwork R cid (k3dNetworkName R name) (world s) = (Some err, w1)"
    by simp_all
  from teardown_found [OF this, of keep]
  show "disconnectRegistryFromNetwork R name keep s =
        (Some err,
         \<lparr>world = w1,
           trace = trace s @
             [Printf Info fmtDisconnecting [S (k3dNetworkName R name)],
              CallDisconnectContainerFromNetwork cid (k3dNetworkName R name)]\<rparr>)"
    by simp
next
  fix cid w1 networks
  assume h: "getRegistryContainer R (world s) = Inr cid \<and> cid \<noteq> '''' \<and>
      disconnectContainerFromNetwork R cid (k3dNetworkName R name) (world s) = (None, w1) \<and>
      getContainerNetworks R cid w1 = Inr networks \<and> networks \<noteq> []"
  then have "getRegistryContainer R (world s) = Inr cid" and "cid \<noteq> ''''"
    and "disconnectContainerFromNetwork R cid (k3dNetworkName R name) (world s) = (None, w1)"
    and "getContainerNetworks R cid w1 = Inr networks" and "networks \<noteq> []"
    by simp_all
  then show "disconnectRegistryFromNetwork R name keep s =
        (None,
         \<lparr>world = w1,
           trace = trace s @
             [Printf Info fmtDisconnecting [S (k3dNetworkName R name)],
              CallDisconnectContainerFromNetwork cid (k3dNetworkName R name)]\<rparr>)"
    by (rule teardown_kept)
qed

text \<open>
  Three runs on the sample hosts: no registry at all; a registry serving \<open>a\<close> and a
  teardown for \<open>b\<close> on the runtime that refuses the disconnection; and the same on
  the sample runtime, which accepts it, where the registry goes on serving \<open>a\<close>.
\<close>

theorem teardown_without_attachment_witness:
  "getRegistryContainer sampleRuntime (world (start emptyHost)) = Inr '''' \<and>
   disconnectRegistryFromNetwork sampleRuntime ''a'' False (start emptyHost)
     = (None, start emptyHost) \<and>
   getRegistryContainer strictRuntime (world (start hostA)) = Inr ''c0ffee'' \<and>
   disconnectContainerFromNetwork strictRuntime ''c0ffee'' (k3dNetworkName strictRuntime ''b'')
     (world (start hostA)) = (Some (Err ''container is not connected to the network''), hostA) \<and>
   disconnectRegistryFromNetwork strictRuntime ''b'' False (start hostA) =
     (Some (Err ''container is not connected to the network''),
      \<lparr>world = hostA,
        trace = trace (start hostA) @
          [Printf Info fmtDisconnecting [S (k3dNetworkName strictRuntime ''b'')],
           CallDisconnectContainerFromNetwork ''c0ffee'' (k3dNetworkName strictRuntime ''b'')]\<rparr>) \<and>
   getRegistryContainer sampleRuntime (world (start hostA)) = Inr ''c0ffee'' \<and>
   disconnectContainerFromNetwork sampleRuntime ''c0ffee'' (k3dNetworkName sampleRuntime ''b'')
     (world (start hostA)) = (None, hostA) \<and>
   getContainerNetworks sampleRuntime ''c0ffee'' hostA = Inr [''k3d-a''] \<and>
   disconnectRegistryFromNetwork sampleRuntime ''b'' False (start hostA) =
     (None,
      \<lparr>world = hostA,
        trace = trace (start hostA) @
          [Printf Info fmtDisconnecting [S (k3dNetworkName sampleRuntime ''b'')],
           CallDisconnectContainerFromNetwork ''c0ffee'' (k3dNetworkName sampleRuntime ''b'')]\<rparr>)"
proof -
  have ne: "''c0ffee'' \<noteq> ''''" and nn: "[''k3d-a''] \<noteq> []" by simp_all
  have e1: "getRegistryContainer sampleRuntime (world (start emptyHost)) = Inr ''''"
    by (simp add: getRegistryContainer_def sampleRuntime_def start_def emptyHost_def)
  have a1: "getRegistryContainer strictRuntime (world (start hostA)) = Inr ''c0ffee''"
    by (simp add: getRegistryContainer_def strictRuntime_def sampleRuntime_def start_def
        hostA_def emptyHost_def)
  have a2: "disconnectContainerFromNetwork strictRuntime ''c0ffee''
              (k3dNetworkName strictRuntime ''b'') (world (start hostA))
            = (Some (Err ''container is not connected to the network''), hostA)"
    by (simp add: strictRuntime_def sampleRuntime_def start_def hostA_def emptyHost_def)
  have l1: "getRegistryContainer sampleRuntime (world (start hostA)) = Inr ''c0ffee''"
    by (simp add: getRegistryContainer_def sampleRuntime_def start_def
        hostA_def emptyHost_def)
  have l2: "disconnectContainerFromNetwork sampleRuntime ''c0ffee''
              (k3dNetworkName sampleRuntime ''b'') (world (start hostA)) = (None, hostA)"
    by (simp add: sampleRuntime_def start_def hostA_def emptyHost_def)
  have l3: "getContainerNetworks sampleRuntime ''c0ffee'' hostA = Inr [''k3d-a'']"
    by (simp add: sampleRuntime_def hostA_def emptyHost_def)
  note T1 = teardown_without_attachment [of sampleRuntime "start emptyHost" "''a''" False]
  note T2 = teardown_without_attachment [of strictRuntime "start hostA" "''b''" False]
  note T3 = teardown_without_attachment [of sampleRuntime "start hostA" "''b''" False]
  have r1: "disconnectRegistryFromNetwork sampleRuntime ''a'' False (start emptyHost)
              = (None, start emptyHost)"
    using T1 e1 by blast
  have r2: "disconnectRegistryFromNetwork strictRuntime ''b'' False (start hostA) =
     (Some (Err ''container is not connected to the network''),
      \<lparr>world = hostA,
        trace = trace (start hostA) @
          [Printf Info fmtDisconnecting [S (k3dNetworkName strictRuntime ''b'')],
           CallDisconnectContainerFromNetwork ''c0ffee'' (k3dNetworkName strictRuntime ''b'')]\<rparr>)"
    using T2 a1 ne a2 by blast
  have r3: "disconnectRegistryFromNetwork sampleRuntime ''b'' False (start hostA) =
     (None,
      \<lparr>world = hostA,
        trace = trace (start hostA) @
          [Printf Info fmtDisconnecting [S (k3dNetworkName sampleRuntime ''b'')],
           CallDisconnectContainerFromNetwork ''c0ffee'' (k3dNetworkName sampleRuntime ''b'')]\<rparr>)"
    using T3 l1 ne l2 l3 nn by blast
  from e1 r1 a1 a2 r2 l1 l2 l3 r3 show ?thesis by (intro conjI) assumption+
qed

text \<open>
  C4 as the claim states it fails twice. The registry serves \<open>a\<close> only, so \<open>b\<close>
  was never attached: on the runtime that reports such a disconnection as an error,
  the teardown for \<open>b\<close> returns that error. And on the sample runtime, which accepts
  the disconnection, where the registry has no network left, the teardown for \<open>b\<close>
  removes the registry container and its volume.
\<close>

theorem teardown_without_attachment_counterexample:
  "registryNetworks hostA = Some [''k3d-a''] \<and>
   k3dNetworkName strictRuntime ''b'' = ''k3d-b'' \<and>
   fst (disconnectRegistryFromNetwork strictRuntime ''b'' False (start hostA))
     = Some (Err ''container is not connected to the network'') \<and>
   registryNetworks hostDetached = Some [] \<and>
   fst (disconnectRegistryFromNetwork sampleRuntime ''b'' False (start hostDetached)) = None \<and>
   registryNetworks (world (snd (disconnectRegistryFromNetwork sampleRuntime ''b'' False
     (start hostDetached)))) = None \<and>
   volumes (world (snd (disconnectRegistryFromNetwork sampleRuntime ''b'' False
     (start hostDetached)))) = [] \<and>
   trace (snd (disconnectRegistryFromNetwork sampleRuntime ''b'' False (start hostDetached))) =
     [Printf Info fmtDisconnecting [S ''k3d-b''],
      CallDisconnectContainerFromNetwork ''c0ffee'' ''k3d-b'',
      Printf Info fmtRemoving [],
      CallRemoveContainer ''c0ffee'',
      Printf Info fmtRemovingVolume [S ''data''],
      CallDeleteVolume ''data'']"
  by (simp add: disconnectRegistryFromNetwork_def removeRegistry_def getRegistryContainer_def
      strictRuntime_def sampleRuntime_def start_def hostDetached_def hostA_def emptyHost_def
      call_def logf_def Let_def defaultRegistryMountPath_def defaultRegistryVolumeLabels_def
      volLabels_of_def sampleSpec_def AList.update.simps AList.delete_eq)

subsection \<open>C5: a volume that is not owned is never deleted\<close>

text \<open>
  Claim C5. The teardown has reached the removal branch: the registry exists, its last
  network is gone, \<open>vol\<close> is what the runtime reports as mounted at
  \<open>/var/lib/registry\<close>, and the removal of the container left the runtime in
  \<open>w2\<close>. Ownership is what \<open>getVolume\<close> checks when it is asked for \<open>vol\<close> under
  the label set \<open>app: k3d, component: registry, managed: true\<close>: it answers nil for a
  volume that does not carry all three. Then, whatever \<open>keep\<close> is, no volume is
  deleted when that lookup finds nothing; and a deletion is issued exactly for
  \<open>vol\<close>, exactly when \<open>vol\<close> is named, found under these labels, and not kept.
\<close>

theorem unowned_volume_never_deleted:
  assumes "getRegistryContainer R (world s) = Inr cid" and "cid \<noteq> ''''"
    and "disconnectContainerFromNetwork R cid (k3dNetworkName R name) (world s) = (None, w1)"
    and "getContainerNetworks R cid w1 = Inr []"
    and "getVolumeMountedIn R cid defaultRegistryMountPath w1 = (vol, verr)"
    and "removeContainer R cid w1 = (rerr, w2)"
  shows "(getVolume R vol
            [(''app'', ''k3d''), (''component'', ''registry''), (''managed'', ''true'')] w2
          = Inr None \<longrightarrow>
            (\<forall>v. CallDeleteVolume v
                   \<notin> set (issued s (snd (disconnectRegistryFromNetwork R name keep s))))) \<and>
         (\<forall>v. CallDeleteVolume v
                 \<in> set (issued s (snd (disconnectRegistryFromNetwork R name keep s)))
               \<longleftrightarrow>
               v = vol \<and> vol \<noteq> '''' \<and> \<not> keep \<and>
               (\<exists>x. getVolume R vol
                      [(''app'', ''k3d''), (''component'', ''registry''), (''managed'', ''true'')]
                      w2 = Inr (Some x)))"
proof -
  have del: "CallDeleteVolume v
                 \<in> set (issued s (snd (disconnectRegistryFromNetwork R name keep s)))
               \<longleftrightarrow>
               v = vol \<and> vol \<noteq> '''' \<and> \<not> keep \<and>
               (\<exists>x. getVolume R vol defaultRegistryVolumeLabels w2 = Inr (Some x))" for v
    unfolding teardown_removal [OF assms(1,2,3,4)]
    by (subst removeRegistry_deletes [where pre =
          "[Printf Info fmtDisconnecting [S (k3dNetworkName R name)],
            CallDisconnectContainerFromNetwork cid (k3dNetworkName R name)]"
          and vol = vol and verr = verr and rerr = rerr and ?w2.0 = w2])
       (simp_all add: assms(5,6))
  have lbl: "defaultRegistryVolumeLabels =
      [(''app'', ''k3d''), (''component'', ''registry''), (''managed'', ''true'')]"
    by (simp add: defaultRegistryVolumeLabels_def)
  from del show ?thesis unfolding lbl by simp
qed

text \<open>
  On the sample host the volume \<open>data\<close> at the data path carries \<open>app\<close> and
  \<open>component\<close> but not \<open>managed\<close>: detaching the last cluster removes the
  registry and deletes no volume, whether the caller keeps volumes or not.
\<close>

theorem unowned_volume_never_deleted_witness:
  "getRegistryContainer sampleRuntime (world (start hostForeign)) = Inr ''c0ffee'' \<and>
   disconnectContainerFromNetwork sampleRuntime ''c0ffee'' (k3dNetworkName sampleRuntime ''a'')
     (world (start hostForeign)) = (None, hostForeign\<lparr>registryNetworks := Some []\<rparr>) \<and>
   getContainerNetworks sampleRuntime ''c0ffee'' (hostForeign\<lparr>registryNetworks := Some []\<rparr>)
     = Inr [] \<and>
   getVolumeMountedIn sampleRuntime ''c0ffee'' defaultRegistryMountPath
     (hostForeign\<lparr>registryNetworks := Some []\<rparr>) = (''data'', None) \<and>
   removeContainer sampleRuntime ''c0ffee'' (hostForeign\<lparr>registryNetworks := Some []\<rparr>)
     = (None, hostForeign\<lparr>registryNetworks := None\<rparr>) \<and>
   getVolume sampleRuntime ''data''
     [(''app'', ''k3d''), (''component'', ''registry''), (''managed'', ''true'')]
     (hostForeign\<lparr>registryNetworks := None\<rparr>) = Inr None \<and>
   CallDeleteVolume ''data''
     \<notin> set (issued (start hostForeign)
              (snd (disconnectRegistryFromNetwork sampleRuntime ''a'' False (start hostForeign)))) \<and>
   CallDeleteVolume ''data''
     \<notin> set (issued (start hostForeign)
              (snd (disconnectRegistryFromNetwork sampleRuntime ''a'' True (start hostForeign))))"
proof -
  have ne: "''c0ffee'' \<noteq> ''''" by simp
  have h1: "getRegistryContainer sampleRuntime (world (start hostForeign)) = Inr ''c0ffee''"
    by (simp add: getRegistryContainer_def sampleRuntime_def start_def hostForeign_def
        hostA_def emptyHost_def)
  have h2: "disconnectContainerFromNetwork sampleRuntime ''c0ffee''
              (k3dNetworkName sampleRuntime ''a'') (world (start hostForeign))
            = (None, hostForeign\<lparr>registryNetworks := Some []\<rparr>)"
    by (simp add: sampleRuntime_def start_def hostForeign_def hostA_def emptyHost_def)
  have h3: "getContainerNetworks sampleRuntime ''c0ffee''
              (hostForeign\<lparr>registryNetworks := Some []\<rparr>) = Inr []"
    by (simp add: sampleRuntime_def)
  have h4: "getVolumeMountedIn sampleRuntime ''c0ffee'' defaultRegistryMountPath
              (hostForeign\<lparr>registryNetworks := Some []\<rparr>) = (''data'', None)"
    by (simp add: sampleRuntime_def hostForeign_def hostA_def emptyHost_def)
  have h5: "removeContainer sampleRuntime ''c0ffee'' (hostForeign\<lparr>registryNetworks := Some []\<rparr>)
            = (None, hostForeign\<lparr>registryNetworks := None\<rparr>)"
    by (simp add: sampleRuntime_def)
  have h6: "getVolume sampleRuntime ''data''
              [(''app'', ''k3d''), (''component'', ''registry''), (''managed'', ''true'')]
              (hostForeign\<lparr>registryNetworks := None\<rparr>) = Inr None"
    by (simp add: sampleRuntime_def hostForeign_def hostA_def emptyHost_def)
  have F: "CallDeleteVolume ''data''
     \<notin> set (issued (start hostForeign)
              (snd (disconnectRegistryFromNetwork sampleRuntime ''a'' False (start hostForeign))))"
    using unowned_volume_never_deleted [OF h1 ne h2 h3 h4 h5, of False] h6 by blast
  have T: "CallDeleteVolume ''data''
     \<notin> set (issued (start hostForeign)
              (snd (disconnectRegistryFromNetwork sampleRuntime ''a'' True (start hostForeign))))"
    using unowned_volume_never_deleted [OF h1 ne h2 h3 h4 h5, of True] h6 by blast
  from h1 h2 h3 h4 h5 h6 F T show ?thesis by (intro conjI) assumption+
qed

subsection \<open>C7: a failed network query ends the teardown\<close>

text \<open>
  Claim C7, as the code has it. When the query for the networks still attached fails,
  the teardown stops there: it returns the error of the query unchanged, it has logged
  the disconnection only (no warning), and it has issued the disconnection only (no
  removal). So the locator is not the only step whose failure ends the teardown.
\<close>

theorem failed_network_query_aborts:
  assumes "getRegistryContainer R (world s) = Inr cid" and "cid \<noteq> ''''"
    and "disconnectContainerFromNetwork R cid (k3dNetworkName R name) (world s) = (None, w1)"
    and "getContainerNetworks R cid w1 = Inl err"
  shows "disconnectRegistryFromNetwork R name keep s =
     (Some err,
      \<lparr>world = w1,
        trace = trace s @
          [Printf Info fmtDisconnecting [S (k3dNetworkName R name)],
           CallDisconnectContainerFromNetwork cid (k3dNetworkName R name)]\<rparr>)"
  using teardown_found [OF assms(1,2,3), of keep] assms(4) by simp

text \<open>
  The sample runtime that is lost after the disconnection: the teardown of the last
  cluster returns the error of the query and the registry container stays.
\<close>

theorem failed_network_query_aborts_witness:
  "getRegistryContainer lostRuntime (world (start hostA)) = Inr ''c0ffee'' \<and>
   disconnectContainerFromNetwork lostRuntime ''c0ffee'' (k3dNetworkName lostRuntime ''a'')
     (world (start hostA)) = (None, hostDetached) \<and>
   getContainerNetworks lostRuntime ''c0ffee'' hostDetached = Inl (Err ''connection refused'') \<and>
   disconnectRegistryFromNetwork lostRuntime ''a'' False (start hostA) =
     (Some (Err ''connection refused''),
      \<lparr>world = hostDetached,
        trace = trace (start hostA) @
          [Printf Info fmtDisconnecting [S (k3dNetworkName lostRuntime ''a'')],
           CallDisconnectContainerFromNetwork ''c0ffee'' (k3dNetworkName lostRuntime ''a'')]\<rparr>)"
proof -
  have ne: "''c0ffee'' \<noteq> ''''" by simp
  have h1: "getRegistryContainer lostRuntime (world (start hostA)) = Inr ''c0ffee''"
    by (simp add: getRegistryContainer_def lostRuntime_def sampleRuntime_def start_def
        hostA_def emptyHost_def)
  have h2: "disconnectContainerFromNetwork lostRuntime ''c0ffee''
              (k3dNetworkName lostRuntime ''a'') (world (start hostA)) = (None, hostDetached)"
    by (simp add: lostRuntime_def sampleRuntime_def start_def hostA_def hostDetached_def
        emptyHost_def)
  have h3: "getContainerNetworks lostRuntime ''c0ffee'' hostDetached
            = Inl (Err ''connection refused'')"
    by (simp add: lostRuntime_def)
  from h1 h2 h3 failed_network_query_aborts [OF h1 ne h2 h3, of False]
  show ?thesis by (intro conjI) assumption+
qed

text \<open>
  C7 as the claim states it fails on that run: the error is returned, the container is
  still there, and the trace holds no warning.
\<close>

theorem failed_network_query_counterexample:
  "fst (disconnectRegistryFromNetwork lostRuntime ''a'' False (start hostA))
     = Some (Err ''connection refused'') \<and>
   registryNetworks (world (snd (disconnectRegistryFromNetwork lostRuntime ''a'' False
     (start hostA)))) = Some [] \<and>
   trace (snd (disconnectRegistryFromNetwork lostRuntime ''a'' False (start hostA))) =
     [Printf Info fmtDisconnecting [S ''k3d-a''],
      CallDisconnectContainerFromNetwork ''c0ffee'' ''k3d-a'']"
  by (simp add: disconnectRegistryFromNetwork_def getRegistryContainer_def lostRuntime_def
      sampleRuntime_def start_def hostA_def emptyHost_def call_def logf_def Let_def)

subsection \<open>Shared facts about createRegistry\<close>

text \<open>The branch taken when a registry exists.\<close>

lemma createRegistry_reuse:
  assumes "getRegistryContainer R (world s) = Inr cid" and "cid \<noteq> ''''"
    and "startContainer R cid (world s) = (serr, w1)"
    and "connectContainerToNetwork R cid (k3dNetworkName R (ClusterName spec))
           [RegistryName spec] w1 = (cerr, w2)"
  shows "createRegistry R spec s =
     (Returns (case cerr of None \<Rightarrow> Inr cid | Some err \<Rightarrow> Inl err),
      \<lparr>world = w2,
        trace = trace s @
          [Printf Info fmtAlreadyPresent [S (k3dNetworkName R (ClusterName spec))],
           CallStartContainer cid] @
          (if serr = None then [] else [Printf Warn fmtFailedToStart [S cid]]) @
          [CallConnectContainerToNetwork cid (k3dNetworkName R (ClusterName spec))
             [RegistryName spec]]\<rparr>)"
  using assms
  by (simp add: createRegistry_def connectRegistryToNetwork_def Let_def call_def logf_def
      split: option.splits)

text \<open>The branch taken when no registry exists, step by step.\<close>

lemma createRegistry_fresh:
  assumes "getRegistryContainer R (world s) = Inr ''''"
  shows "createRegistry R spec s =
     (case CreatePublishedPorts R [registryPortSpec spec] of
        Inl err \<Rightarrow>
          (ProcessExit,
           logf Fatal fmtBadPortSpecs [S (registryPortSpec spec), E err]
             (announceCreation spec s))
      | Inr pp \<Rightarrow>
          (case mergoMerge R (baseHostConfig pp) (HostConfig spec) of
             Inl err \<Rightarrow> (Returns (Inl err), announceCreation spec s)
           | Inr hc1 \<Rightarrow>
               (case registryVolume R spec (autoRestart spec hc1) (announceCreation spec s) of
                  (Inl err, s2) \<Rightarrow> (Returns (Inl err), s2)
                | (Inr hc, s2) \<Rightarrow>
                    (case runRegistry R spec (k3dNetworkName R (ClusterName spec))
                            (containerLabels spec (clock R (world s))) pp hc s2 of
                       (r, s3) \<Rightarrow> (Returns r, s3)))))"
  using assms
  by (simp add: createRegistry_def Let_def announceCreation_def logf_def
      split: sum.splits prod.splits)

lemma createRegistry_volume_error:
  assumes "getRegistryContainer R (world s) = Inr ''''"
    and "CreatePublishedPorts R [registryPortSpec spec] = Inr pp"
    and "mergoMerge R (baseHostConfig pp) (HostConfig spec) = Inr hc1"
    and "fst (registryVolume R spec (autoRestart spec hc1) (announceCreation spec s)) = Inl err"
  shows "fst (createRegistry R spec s) = Returns (Inl err)"
proof -
  obtain s2 where "registryVolume R spec (autoRestart spec hc1) (announceCreation spec s)
      = (Inl err, s2)"
    using assms(4)
    by (cases "registryVolume R spec (autoRestart spec hc1) (announceCreation spec s)") simp
  with assms(2,3) show ?thesis by (simp add: createRegistry_fresh [OF assms(1)])
qed

lemma createRegistry_run:
  assumes "getRegistryContainer R (world s) = Inr ''''"
    and "CreatePublishedPorts R [registryPortSpec spec] = Inr pp"
    and "mergoMerge R (baseHostConfig pp) (HostConfig spec) = Inr hc1"
    and "registryVolume R spec (autoRestart spec hc1) (announceCreation spec s) = (Inr hc, s2)"
  shows "fst (createRegistry R spec s) =
     Returns (fst (runRegistry R spec (k3dNetworkName R (ClusterName spec))
                     (containerLabels spec (clock R (world s))) pp hc s2))"
  using assms(2,3,4)
  by (simp add: createRegistry_fresh [OF assms(1)] split: prod.splits)

lemma world_announceCreation: "world (announceCreation spec s) = world s"
  by (simp add: announceCreation_def logf_def)

lemma registryVolume_check_fails:
  assumes "RegistryVolume spec \<noteq> ''''"
    and "getVolume R (RegistryVolume spec) [] (world s) = Inl e"
  shows "fst (registryVolume R spec hc s) =
           Inl (Errorf fmtCouldntCheckVolume [RegistryVolume spec] e)"
  using assms by (simp add: registryVolume_def)

lemma registryVolume_create_fails:
  assumes "RegistryVolume spec \<noteq> ''''"
    and "getVolume R (RegistryVolume spec) [] (world s) = Inr None"
    and "createVolume R (RegistryVolume spec) (volLabels_of spec) (world s) = (Some e, w)"
  shows "fst (registryVolume R spec hc s) =
           Inl (Errorf fmtCouldntCreateVolume [RegistryVolume spec] e)"
  using assms by (simp add: registryVolume_def Let_def call_def logf_def)

lemma registryVolume_errors:
  assumes "fst (registryVolume R spec hc s) = Inl err"
  shows "\<exists>e. err = Errorf fmtCouldntCheckVolume [RegistryVolume spec] e \<or>
             err = Errorf fmtCouldntCreateVolume [RegistryVolume spec] e"
  using assms
  by (auto simp add: registryVolume_def Let_def call_def logf_def
      split: if_splits sum.splits option.splits prod.splits)

lemma world_cache_log:
  "world (if c then logf l f a s else s) = world s"
  by (simp add: logf_def)

lemma runRegistry_create_fails:
  assumes "createContainer R (cacheEnv spec (config spec cl pp)) hc (networkingConfig net spec)
             defaultRegistryContainerName (world s) = (Inl e, w)"
  shows "fst (runRegistry R spec net cl pp hc s) =
           Inl (Errorf fmtCouldntCreateContainer [defaultRegistryContainerName] e)"
  using assms by (simp add: runRegistry_def Let_def call_def world_cache_log)

lemma runRegistry_start_fails:
  assumes "createContainer R (cacheEnv spec (config spec cl pp)) hc (networkingConfig net spec)
             defaultRegistryContainerName (world s) = (Inr cid, w)"
    and "startContainer R cid w = (Some e, w')"
  shows "fst (runRegistry R spec net cl pp hc s) =
           Inl (Errorf fmtCouldntStartContainer [defaultRegistryContainerName] e)"
  using assms by (simp add: runRegistry_def Let_def call_def world_cache_log)

lemma runRegistry_errors:
  assumes "fst (runRegistry R spec net cl pp hc s) = Inl err"
  shows "\<exists>e. err = Errorf fmtCouldntCreateContainer [defaultRegistryContainerName] e \<or>
             err = Errorf fmtCouldntStartContainer [defaultRegistryContainerName] e"
  using assms
  by (auto simp add: runRegistry_def Let_def call_def
      split: sum.splits option.splits prod.splits)

subsection \<open>C3: an existing registry is reused\<close>

text \<open>
  Claim C3. When the locator finds a registry container, \<open>createRegistry\<close> logs that
  it is present, starts it, logs a warning when the start failed, connects it to the
  network of the requesting cluster under the alias \<open>RegistryName\<close>, and nothing
  else: no container and no volume is created. What it returns depends on the
  connection only: the identifier of the existing container when the connection
  succeeded (whether the start failed or not), the error of the connection otherwise.
\<close>

theorem reuse_existing_registry:
  assumes "getRegistryContainer R (world s) = Inr cid" and "cid \<noteq> ''''"
    and "startContainer R cid (world s) = (serr, w1)"
    and "connectContainerToNetwork R cid (k3dNetworkName R (ClusterName spec))
           [RegistryName spec] w1 = (cerr, w2)"
  shows "issued s (snd (createRegistry R spec s)) =
           [Printf Info fmtAlreadyPresent [S (k3dNetworkName R (ClusterName spec))],
            CallStartContainer cid] @
           (if serr = None then [] else [Printf Warn fmtFailedToStart [S cid]]) @
           [CallConnectContainerToNetwork cid (k3dNetworkName R (ClusterName spec))
              [RegistryName spec]] \<and>
         (\<forall>c h n m. CallCreateContainer c h n m \<notin> set (issued s (snd (createRegistry R spec s)))) \<and>
         (\<forall>v l. CallCreateVolume v l \<notin> set (issued s (snd (createRegistry R spec s)))) \<and>
         fst (createRegistry R spec s) =
           Returns (case cerr of None \<Rightarrow> Inr cid | Some err \<Rightarrow> Inl err) \<and>
         (cerr = None \<longrightarrow> fst (createRegistry R spec s) = Returns (Inr cid)) \<and>
         world (snd (createRegistry R spec s)) = w2"
  unfolding createRegistry_reuse [OF assms]
  by (simp add: issued_def)

text \<open>
  On the sample host the registry serves \<open>a\<close>; the cluster \<open>b\<close> asks for a
  registry. Once the start succeeds, once it fails: both runs return the identifier of
  the existing container.
\<close>

theorem reuse_existing_registry_witness:
  "getRegistryContainer sampleRuntime (world (start hostA)) = Inr ''c0ffee'' \<and>
   startContainer sampleRuntime ''c0ffee'' (world (start hostA)) = (None, hostA) \<and>
   connectContainerToNetwork sampleRuntime ''c0ffee''
     (k3dNetworkName sampleRuntime (ClusterName clusterB)) [RegistryName clusterB] hostA
     = (None, hostA\<lparr>registryNetworks := Some [''k3d-b'', ''k3d-a'']\<rparr>) \<and>
   fst (createRegistry sampleRuntime clusterB (start hostA)) = Returns (Inr ''c0ffee'') \<and>
   issued (start hostA) (snd (createRegistry sampleRuntime clusterB (start hostA))) =
     [Printf Info fmtAlreadyPresent [S (k3dNetworkName sampleRuntime (ClusterName clusterB))],
      CallStartContainer ''c0ffee'',
      CallConnectContainerToNetwork ''c0ffee''
        (k3dNetworkName sampleRuntime (ClusterName clusterB)) [RegistryName clusterB]] \<and>
   getRegistryContainer containerStartFails (world (start hostA)) = Inr ''c0ffee'' \<and>
   startContainer containerStartFails ''c0ffee'' (world (start hostA))
     = (Some (Err ''port is already allocated''), hostA) \<and>
   connectContainerToNetwork containerStartFails ''c0ffee''
     (k3dNetworkName containerStartFails (ClusterName clusterB)) [RegistryName clusterB] hostA
     = (None, hostA\<lparr>registryNetworks := Some [''k3d-b'', ''k3d-a'']\<rparr>) \<and>
   fst (createRegistry containerStartFails clusterB (start hostA)) = Returns (Inr ''c0ffee'') \<and>
   issued (start hostA) (snd (createRegistry containerStartFails clusterB (start hostA))) =
     [Printf Info fmtAlreadyPresent
        [S (k3dNetworkName containerStartFails (ClusterName clusterB))],
      CallStartContainer ''c0ffee'',
      Printf Warn fmtFailedToStart [S ''c0ffee''],
      CallConnectContainerToNetwork ''c0ffee''
        (k3dNetworkName containerStartFails (ClusterName clusterB)) [RegistryName clusterB]]"
proof -
  have ne: "''c0ffee'' \<noteq> ''''" by simp
  have a1: "getRegistryContainer sampleRuntime (world (start hostA)) = Inr ''c0ffee''"
    by (simp add: getRegistryContainer_def sampleRuntime_def start_def hostA_def emptyHost_def)
  have a2: "startContainer sampleRuntime ''c0ffee'' (world (start hostA)) = (None, hostA)"
    by (simp add: sampleRuntime_def start_def)
  have a3: "connectContainerToNetwork sampleRuntime ''c0ffee''
     (k3dNetworkName sampleRuntime (ClusterName clusterB)) [RegistryName clusterB] hostA
     = (None, hostA\<lparr>registryNetworks := Some [''k3d-b'', ''k3d-a'']\<rparr>)"
    by (simp add: sampleRuntime_def clusterB_def sampleSpec_def hostA_def emptyHost_def)
  have b1: "getRegistryContainer containerStartFails (world (start hostA)) = Inr ''c0ffee''"
    by (simp add: getRegistryContainer_def containerStartFails_def sampleRuntime_def start_def
        hostA_def emptyHost_def)
  have b2: "startContainer containerStartFails ''c0ffee'' (world (start hostA))
     = (Some (Err ''port is already allocated''), hostA)"
    by (simp add: containerStartFails_def start_def)
  have b3: "connectContainerToNetwork containerStartFails ''c0ffee''
     (k3dNetworkName containerStartFails (ClusterName clusterB)) [RegistryName clusterB] hostA
     = (None, hostA\<lparr>registryNetworks := Some [''k3d-b'', ''k3d-a'']\<rparr>)"
    by (simp add: containerStartFails_def sampleRuntime_def clusterB_def sampleSpec_def
        hostA_def emptyHost_def)
  note A = reuse_existing_registry [OF a1 ne a2 a3]
  note B = reuse_existing_registry [OF b1 ne b2 b3]
  have A1: "fst (createRegistry sampleRuntime clusterB (start hostA)) = Returns (Inr ''c0ffee'')"
    using A by simp
  have A2: "issued (start hostA) (snd (createRegistry sampleRuntime clusterB (start hostA))) =
     [Printf Info fmtAlreadyPresent [S (k3dNetworkName sampleRuntime (ClusterName clusterB))],
      CallStartContainer ''c0ffee'',
      CallConnectContainerToNetwork ''c0ffee''
        (k3dNetworkName sampleRuntime (ClusterName clusterB)) [RegistryName clusterB]]"
    using A by simp
  have B1: "fst (createRegistry containerStartFails clusterB (start hostA))
              = Returns (Inr ''c0ffee'')"
    using B by simp
  have B2: "issued (start hostA) (snd (createRegistry containerStartFails clusterB (start hostA))) =
     [Printf Info fmtAlreadyPresent
        [S (k3dNetworkName containerStartFails (ClusterName clusterB))],
      CallStartContainer ''c0ffee'',
      Printf Warn fmtFailedToStart [S ''c0ffee''],
      CallConnectContainerToNetwork ''c0ffee''
        (k3dNetworkName containerStartFails (ClusterName clusterB)) [RegistryName clusterB]]"
    using B by simp
  from a1 a2 a3 A1 A2 b1 b2 b3 B1 B2 show ?thesis by (intro conjI) assumption+
qed

subsection \<open>C6: how a failed construction step ends the creation\<close>

text \<open>
  Claim C6, as the code has it. No registry exists. A port specification that fails
  to parse ends the process through \<open>log.Fatalf\<close>: the last thing done is the fatal
  log line, and \<open>createRegistry\<close> does not return. A failed merge of the
  host-configuration override is returned as it is, not wrapped. A failed volume
  lookup, volume creation, container creation or container start makes
  \<open>createRegistry\<close> return \<open>fmt.Errorf\<close> of a message naming the step (\<open>Couldn't check
  if volume %s exists\<close>, \<open>Couldn't create volume %s for registry\<close>, \<open>Couldn't create
  registry container %s\<close>, \<open>Couldn't start container %s\<close>) around the error of the
  helper. Once the ports parse and the merge succeeds, every error returned has one of
  these four forms.
\<close>

theorem construction_failures:
  assumes "getRegistryContainer R (world s) = Inr ''''"
  shows
   "(\<forall>e. CreatePublishedPorts R [registryPortSpec spec] = Inl e \<longrightarrow>
        fst (createRegistry R spec s) = ProcessExit \<and>
        last (trace (snd (createRegistry R spec s))) =
          Printf Fatal fmtBadPortSpecs [S (registryPortSpec spec), E e]) \<and>
    (\<forall>pp e. CreatePublishedPorts R [registryPortSpec spec] = Inr pp \<and>
        mergoMerge R (baseHostConfig pp) (HostConfig spec) = Inl e \<longrightarrow>
        fst (createRegistry R spec s) = Returns (Inl e)) \<and>
    (\<forall>pp hc1 e. CreatePublishedPorts R [registryPortSpec spec] = Inr pp \<and>
        mergoMerge R (baseHostConfig pp) (HostConfig spec) = Inr hc1 \<and>
        RegistryVolume spec \<noteq> '''' \<and>
        getVolume R (RegistryVolume spec) [] (world s) = Inl e \<longrightarrow>
        fst (createRegistry R spec s) =
          Returns (Inl (Errorf fmtCouldntCheckVolume [RegistryVolume spec] e))) \<and>
    (\<forall>pp hc1 e w. CreatePublishedPorts R [registryPortSpec spec] = Inr pp \<and>
        mergoMerge R (baseHostConfig pp) (HostConfig spec) = Inr hc1 \<and>
        RegistryVolume spec \<noteq> '''' \<and>
        getVolume R (RegistryVolume spec) [] (world s) = Inr None \<and>
        createVolume R (RegistryVolume spec) (volLabels_of spec) (world s) = (Some e, w) \<longrightarrow>
        fst (createRegistry R spec s) =
          Returns (Inl (Errorf fmtCouldntCreateVolume [RegistryVolume spec] e))) \<and>
    (\<forall>pp hc1 hc s2 e w. CreatePublishedPorts R [registryPortSpec spec] = Inr pp \<and>
        mergoMerge R (baseHostConfig pp) (HostConfig spec) = Inr hc1 \<and>
        registryVolume R spec (autoRestart spec hc1) (announceCreation spec s) = (Inr hc, s2) \<and>
        createContainer R
          (cacheEnv spec (config spec (containerLabels spec (clock R (world s))) pp)) hc
          (networkingConfig (k3dNetworkName R (ClusterName spec)) spec)
          defaultRegistryContainerName (world s2) = (Inl e, w) \<longrightarrow>
        fst (createRegistry R spec s) =
          Returns (Inl (Errorf fmtCouldntCreateContainer [defaultRegistryContainerName] e))) \<and>
    (\<forall>pp hc1 hc s2 cid e w w'. CreatePublishedPorts R [registryPortSpec spec] = Inr pp \<and>
        mergoMerge R (baseHostConfig pp) (HostConfig spec) = Inr hc1 \<and>
        registryVolume R spec (autoRestart spec hc1) (announceCreation spec s) = (Inr hc, s2) \<and>
        createContainer R
          (cacheEnv spec (config spec (containerLabels spec (clock R (world s))) pp)) hc
          (networkingConfig (k3dNetworkName R (ClusterName spec)) spec)
          defaultRegistryContainerName (world s2) = (Inr cid, w) \<and>
        startContainer R cid w = (Some e, w') \<longrightarrow>
        fst (createRegistry R spec s) =
          Returns (Inl (Errorf fmtCouldntStartContainer [defaultRegistryContainerName] e))) \<and>
    (\<forall>pp hc1 err. CreatePublishedPorts R [registryPortSpec spec] = Inr pp \<and>
        mergoMerge R (baseHostConfig pp) (HostConfig spec) = Inr hc1 \<and>
        fst (createRegistry R spec s) = Returns (Inl err) \<longrightarrow>
        (\<exists>e. err = Errorf fmtCouldntCheckVolume [RegistryVolume spec] e \<or>
             err = Errorf fmtCouldntCreateVolume [RegistryVolume spec] e \<or>
             err = Errorf fmtCouldntCreateContainer [defaultRegistryContainerName] e \<or>
             err = Errorf fmtCouldntStartContainer [defaultRegistryContainerName] e))"
proof (intro conjI allI impI)
  fix e
  assume "CreatePublishedPorts R [registryPortSpec spec] = Inl e"
  then show "fst (createRegistry R spec s) = ProcessExit"
    by (simp add: createRegistry_fresh [OF assms])
next
  fix e
  assume "CreatePublishedPorts R [registryPortSpec spec] = Inl e"
  then show "last (trace (snd (createRegistry R spec s))) =
          Printf Fatal fmtBadPortSpecs [S (registryPortSpec spec), E e]"
    by (simp add: createRegistry_fresh [OF assms] logf_def)
next
  fix pp e
  assume "CreatePublishedPorts R [registryPortSpec spec] = Inr pp \<and>
        mergoMerge R (baseHostConfig pp) (HostConfig spec) = Inl e"
  then show "fst (createRegistry R spec s) = Returns (Inl e)"
    by (simp add: createRegistry_fresh [OF assms])
next
  fix pp hc1 e
  assume h: "CreatePublishedPorts R [registryPortSpec spec] = Inr pp \<and>
        mergoMerge R (baseHostConfig pp) (HostConfig spec) = Inr hc1 \<and>
        RegistryVolume spec \<noteq> '''' \<and>
        getVolume R (RegistryVolume spec) [] (world s) = Inl e"
  then have "fst (registryVolume R spec (autoRestart spec hc1) (announceCreation spec s)) =
               Inl (Errorf fmtCouldntCheckVolume [RegistryVolume spec] e)"
    by (intro registryVolume_check_fails) (simp_all add: world_announceCreation)
  with h show "fst (createRegistry R spec s) =
          Returns (Inl (Errorf fmtCouldntCheckVolume [RegistryVolume spec] e))"
    by (intro createRegistry_volume_error [OF assms, where pp = pp and ?hc1.0 = hc1]) simp_all
next
  fix pp hc1 e w
  assume h: "CreatePublishedPorts R [registryPortSpec spec] = Inr pp \<and>
        mergoMerge R (baseHostConfig pp) (HostConfig spec) = Inr hc1 \<and>
        RegistryVolume spec \<noteq> '''' \<and>
        getVolume R (RegistryVolume spec) [] (world s) = Inr None \<and>
        createVolume R (RegistryVolume spec) (volLabels_of spec) (world s) = (Some e, w)"
  then have "fst (registryVolume R spec (autoRestart spec hc1) (announceCreation spec s)) =
               Inl (Errorf fmtCouldntCreateVolume [RegistryVolume spec] e)"
    by (intro registryVolume_create_fails [where w = w]) (simp_all add: world_announceCreation)
  with h show "fst (createRegistry R spec s) =
          Returns (Inl (Errorf fmtCouldntCreateVolume [RegistryVolume spec] e))"
    by (intro createRegistry_volume_error [OF assms, where pp = pp and ?hc1.0 = hc1]) simp_all
next
  fix pp hc1 hc s2 e w
  assume h: "CreatePublishedPorts R [registryPortSpec spec] = Inr pp \<and>
        mergoMerge R (baseHostConfig pp) (HostConfig spec) = Inr hc1 \<and>
        registryVolume R spec (autoRestart spec hc1) (announceCreation spec s) = (Inr hc, s2) \<and>
        createContainer R
          (cacheEnv spec (config spec (containerLabels spec (clock R (world s))) pp)) hc
          (networkingConfig (k3dNetworkName R (ClusterName spec)) spec)
          defaultRegistryContainerName (world s2) = (Inl e, w)"
  then have "fst (runRegistry R spec (k3dNetworkName R (ClusterName spec))
                    (containerLabels spec (clock R (world s))) pp hc s2) =
               Inl (Errorf fmtCouldntCreateContainer [defaultRegistryContainerName] e)"
    by (intro runRegistry_create_fails [where w = w]) simp
  moreover from h have "fst (createRegistry R spec s) =
     Returns (fst (runRegistry R spec (k3dNetworkName R (ClusterName spec))
                     (containerLabels spec (clock R (world s))) pp hc s2))"
    by (intro createRegistry_run [OF assms, where ?hc1.0 = hc1]) simp_all
  ultimately show "fst (createRegistry R spec s) =
          Returns (Inl (Errorf fmtCouldntCreateContainer [defaultRegistryContainerName] e))"
    by simp
next
  fix pp hc1 hc s2 cid e w w'
  assume h: "CreatePublishedPorts R [registryPortSpec spec] = Inr pp \<and>
        mergoMerge R (baseHostConfig pp) (HostConfig spec) = Inr hc1 \<and>
        registryVolume R spec (autoRestart spec hc1) (announceCreation spec s) = (Inr hc, s2) \<and>
        createContainer R
          (cacheEnv spec (config spec (containerLabels spec (clock R (world s))) pp)) hc
          (networkingConfig (k3dNetworkName R (ClusterName spec)) spec)
          defaultRegistryContainerName (world s2) = (Inr cid, w) \<and>
        startContainer R cid w = (Some e, w')"
  then have "fst (runRegistry R spec (k3dNetworkName R (ClusterName spec))
                    (containerLabels spec (clock R (world s))) pp hc s2) =
               Inl (Errorf fmtCouldntStartContainer [defaultRegistryContainerName] e)"
    by (intro runRegistry_start_fails [where w = w and w' = w' and cid = cid]) simp_all
  moreover from h have "fst (createRegistry R spec s) =
     Returns (fst (runRegistry R spec (k3dNetworkName R (ClusterName spec))
                     (containerLabels spec (clock R (world s))) pp hc s2))"
    by (intro createRegistry_run [OF assms, where ?hc1.0 = hc1]) simp_all
  ultimately show "fst (createRegistry R spec s) =
          Returns (Inl (Errorf fmtCouldntStartContainer [defaultRegistryContainerName] e))"
    by simp
next
  fix pp hc1 err
  assume h: "CreatePublishedPorts R [registryPortSpec spec] = Inr pp \<and>
        mergoMerge R (baseHostConfig pp) (HostConfig spec) = Inr hc1 \<and>
        fst (createRegistry R spec s) = Returns (Inl err)"
  obtain rv s2 where v: "registryVolume R spec (autoRestart spec hc1) (announceCreation spec s)
      = (rv, s2)"
    by (cases "registryVolume R spec (autoRestart spec hc1) (announceCreation spec s)")
  show "\<exists>e. err = Errorf fmtCouldntCheckVolume [RegistryVolume spec] e \<or>
             err = Errorf fmtCouldntCreateVolume [RegistryVolume spec] e \<or>
             err = Errorf fmtCouldntCreateContainer [defaultRegistryContainerName] e \<or>
             err = Errorf fmtCouldntStartContainer [defaultRegistryContainerName] e"
  proof (cases rv)
    case (Inl verr)
    with h v have "err = verr"
      using createRegistry_volume_error [OF assms, of spec pp hc1 verr] by simp
    moreover from v Inl
    have "fst (registryVolume R spec (autoRestart spec hc1) (announceCreation spec s)) = Inl verr"
      by simp
    ultimately show ?thesis using registryVolume_errors by blast
  next
    case (Inr hc)
    with h v have "fst (runRegistry R spec (k3dNetworkName R (ClusterName spec))
                    (containerLabels spec (clock R (world s))) pp hc s2) = Inl err"
      using createRegistry_run [OF assms, of spec pp hc1 hc s2] by simp
    then show ?thesis using runRegistry_errors by blast
  qed
qed

text \<open>
  Six runs on the empty sample host, one per failing step: the host port 70000; a
  merge that fails; a volume lookup that fails; a volume creation that fails; and,
  for a specification with no volume, a container creation and a container start that
  fail.
\<close>

theorem construction_failures_witness:
  "getRegistryContainer sampleRuntime (world (start emptyHost)) = Inr '''' \<and>
   CreatePublishedPorts sampleRuntime [registryPortSpec bigPortSpec]
     = Inl (Err ''invalid hostPort: 70000'') \<and>
   fst (createRegistry sampleRuntime bigPortSpec (start emptyHost)) = ProcessExit \<and>
   getRegistryContainer mergeFails (world (start emptyHost)) = Inr '''' \<and>
   CreatePublishedPorts mergeFails [registryPortSpec sampleSpec] = Inr samplePorts \<and>
   mergoMerge mergeFails (baseHostConfig samplePorts) (HostConfig sampleSpec)
     = Inl (Err ''src and dst must be of same type'') \<and>
   fst (createRegistry mergeFails sampleSpec (start emptyHost))
     = Returns (Inl (Err ''src and dst must be of same type'')) \<and>
   getRegistryContainer volumeLookupFails (world (start emptyHost)) = Inr '''' \<and>
   CreatePublishedPorts volumeLookupFails [registryPortSpec sampleSpec] = Inr samplePorts \<and>
   mergoMerge volumeLookupFails (baseHostConfig samplePorts) (HostConfig sampleSpec)
     = Inr (baseHostConfig samplePorts) \<and>
   RegistryVolume sampleSpec \<noteq> '''' \<and>
   getVolume volumeLookupFails (RegistryVolume sampleSpec) [] (world (start emptyHost))
     = Inl (Err ''connection refused'') \<and>
   fst (createRegistry volumeLookupFails sampleSpec (start emptyHost))
     = Returns (Inl (Errorf fmtCouldntCheckVolume [RegistryVolume sampleSpec]
         (Err ''connection refused''))) \<and>
   getRegistryContainer volumeCreateFails (world (start emptyHost)) = Inr '''' \<and>
   CreatePublishedPorts volumeCreateFails [registryPortSpec sampleSpec] = Inr samplePorts \<and>
   mergoMerge volumeCreateFails (baseHostConfig samplePorts) (HostConfig sampleSpec)
     = Inr (baseHostConfig samplePorts) \<and>
   getVolume volumeCreateFails (RegistryVolume sampleSpec) [] (world (start emptyHost))
     = Inr None \<and>
   createVolume volumeCreateFails (RegistryVolume sampleSpec) (volLabels_of sampleSpec)
     (world (start emptyHost)) = (Some (Err ''no space left on device''), emptyHost) \<and>
   fst (createRegistry volumeCreateFails sampleSpec (start emptyHost))
     = Returns (Inl (Errorf fmtCouldntCreateVolume [RegistryVolume sampleSpec]
         (Err ''no space left on device''))) \<and>
   getRegistryContainer containerCreateFails (world (start emptyHost)) = Inr '''' \<and>
   CreatePublishedPorts containerCreateFails [registryPortSpec noVolumeSpec]
     = Inr samplePorts \<and>
   mergoMerge containerCreateFails (baseHostConfig samplePorts) (HostConfig noVolumeSpec)
     = Inr (baseHostConfig samplePorts) \<and>
   registryVolume containerCreateFails noVolumeSpec
     (autoRestart noVolumeSpec (baseHostConfig samplePorts))
     (announceCreation noVolumeSpec (start emptyHost))
     = (Inr (baseHostConfig samplePorts), announceCreation noVolumeSpec (start emptyHost)) \<and>
   createContainer containerCreateFails
     (cacheEnv noVolumeSpec (config noVolumeSpec
        (containerLabels noVolumeSpec (clock containerCreateFails (world (start emptyHost))))
        samplePorts))
     (baseHostConfig samplePorts)
     (networkingConfig (k3dNetworkName containerCreateFails (ClusterName noVolumeSpec))
        noVolumeSpec)
     defaultRegistryContainerName (world (announceCreation noVolumeSpec (start emptyHost)))
     = (Inl (Err ''the container name is already in use''), emptyHost) \<and>
   fst (createRegistry containerCreateFails noVolumeSpec (start emptyHost))
     = Returns (Inl (Errorf fmtCouldntCreateContainer [defaultRegistryContainerName]
         (Err ''the container name is already in use''))) \<and>
   getRegistryContainer containerStartFails (world (start emptyHost)) = Inr '''' \<and>
   CreatePublishedPorts containerStartFails [registryPortSpec noVolumeSpec]
     = Inr samplePorts \<and>
   mergoMerge containerStartFails (baseHostConfig samplePorts) (HostConfig noVolumeSpec)
     = Inr (baseHostConfig samplePorts) \<and>
   registryVolume containerStartFails noVolumeSpec
     (autoRestart noVolumeSpec (baseHostConfig samplePorts))
     (announceCreation noVolumeSpec (start emptyHost))
     = (Inr (baseHostConfig samplePorts), announceCreation noVolumeSpec (start emptyHost)) \<and>
   createContainer containerStartFails
     (cacheEnv noVolumeSpec (config noVolumeSpec
        (containerLabels noVolumeSpec (clock containerStartFails (world (start emptyHost))))
        samplePorts))
     (baseHostConfig samplePorts)
     (networkingConfig (k3dNetworkName containerStartFails (ClusterName noVolumeSpec))
        noVolumeSpec)
     defaultRegistryContainerName (world (announceCreation noVolumeSpec (start emptyHost)))
     = (Inr ''c0ffee'', emptyHost\<lparr>registryNetworks := Some [''k3d-a'']\<rparr>) \<and>
   startContainer containerStartFails ''c0ffee'' (emptyHost\<lparr>registryNetworks := Some [''k3d-a'']\<rparr>)
     = (Some (Err ''port is already allocated''),
        emptyHost\<lparr>registryNetworks := Some [''k3d-a'']\<rparr>) \<and>
   fst (createRegistry containerStartFails noVolumeSpec (start emptyHost))
     = Returns (Inl (Errorf fmtCouldntStartContainer [defaultRegistryContainerName]
         (Err ''port is already allocated'')))"
proof -
  have p0: "registryPortSpec sampleSpec = ''0.0.0.0:5001:5000/tcp''"
    and p1: "registryPortSpec noVolumeSpec = ''0.0.0.0:5001:5000/tcp''"
    and p2: "registryPortSpec bigPortSpec = ''0.0.0.0:70000:5000/tcp''"
    by (simp_all add: registryPortSpec_def sampleSpec_def noVolumeSpec_def bigPortSpec_def
        itoa_def digits.simps defaultRegistryPort_def)
  have vol: "RegistryVolume sampleSpec \<noteq> ''''" by (simp add: sampleSpec_def)
  have novol: "RegistryVolume noVolumeSpec = ''''" by (simp add: noVolumeSpec_def)
  have norestart: "autoRestart noVolumeSpec (baseHostConfig samplePorts)
      = baseHostConfig samplePorts"
    by (simp add: autoRestart_def noVolumeSpec_def sampleSpec_def)
  have a1: "getRegistryContainer sampleRuntime (world (start emptyHost)) = Inr ''''"
    by (simp add: getRegistryContainer_def sampleRuntime_def start_def emptyHost_def)
  have a2: "CreatePublishedPorts sampleRuntime [registryPortSpec bigPortSpec]
     = Inl (Err ''invalid hostPort: 70000'')"
    by (simp add: p2 sampleRuntime_def)
  have b1: "getRegistryContainer mergeFails (world (start emptyHost)) = Inr ''''"
    by (simp add: getRegistryContainer_def mergeFails_def sampleRuntime_def start_def
        emptyHost_def)
  have b2: "CreatePublishedPorts mergeFails [registryPortSpec sampleSpec] = Inr samplePorts"
    by (simp add: p0 mergeFails_def sampleRuntime_def samplePorts_def)
  have b3: "mergoMerge mergeFails (baseHostConfig samplePorts) (HostConfig sampleSpec)
     = Inl (Err ''src and dst must be of same type'')"
    by (simp add: mergeFails_def)
  have c1: "getRegistryContainer volumeLookupFails (world (start emptyHost)) = Inr ''''"
    by (simp add: getRegistryContainer_def volumeLookupFails_def sampleRuntime_def start_def
        emptyHost_def)
  have c2: "CreatePublishedPorts volumeLookupFails [registryPortSpec sampleSpec]
     = Inr samplePorts"
    by (simp add: p0 volumeLookupFails_def sampleRuntime_def samplePorts_def)
  have c3: "mergoMerge volumeLookupFails (baseHostConfig samplePorts) (HostConfig sampleSpec)
     = Inr (baseHostConfig samplePorts)"
    by (simp add: volumeLookupFails_def sampleRuntime_def)
  have c4: "getVolume volumeLookupFails (RegistryVolume sampleSpec) []
      (world (start emptyHost)) = Inl (Err ''connection refused'')"
    by (simp add: volumeLookupFails_def)
  have d1: "getRegistryContainer volumeCreateFails (world (start emptyHost)) = Inr ''''"
    by (simp add: getRegistryContainer_def volumeCreateFails_def sampleRuntime_def start_def
        emptyHost_def)
  have d2: "CreatePublishedPorts volumeCreateFails [registryPortSpec sampleSpec]
     = Inr samplePorts"
    by (simp add: p0 volumeCreateFails_def sampleRuntime_def samplePorts_def)
  have d3: "mergoMerge volumeCreateFails (baseHostConfig samplePorts) (HostConfig sampleSpec)
     = Inr (baseHostConfig samplePorts)"
    by (simp add: volumeCreateFails_def sampleRuntime_def)
  have d4: "getVolume volumeCreateFails (RegistryVolume sampleSpec) []
      (world (start emptyHost)) = Inr None"
    by (simp add: volumeCreateFails_def sampleRuntime_def start_def emptyHost_def)
  have d5: "createVolume volumeCreateFails (RegistryVolume sampleSpec) (volLabels_of sampleSpec)
     (world (start emptyHost)) = (Some (Err ''no space left on device''), emptyHost)"
    by (simp add: volumeCreateFails_def start_def)
  have e1: "getRegistryContainer containerCreateFails (world (start emptyHost)) = Inr ''''"
    by (simp add: getRegistryContainer_def containerCreateFails_def sampleRuntime_def
        start_def emptyHost_def)
  have e2: "CreatePublishedPorts containerCreateFails [registryPortSpec noVolumeSpec]
     = Inr samplePorts"
    by (simp add: p1 containerCreateFails_def sampleRuntime_def samplePorts_def)
  have e3: "mergoMerge containerCreateFails (baseHostConfig samplePorts)
      (HostConfig noVolumeSpec) = Inr (baseHostConfig samplePorts)"
    by (simp add: containerCreateFails_def sampleRuntime_def)
  have e4: "registryVolume containerCreateFails noVolumeSpec
     (autoRestart noVolumeSpec (baseHostConfig samplePorts))
     (announceCreation noVolumeSpec (start emptyHost))
     = (Inr (baseHostConfig samplePorts), announceCreation noVolumeSpec (start emptyHost))"
    by (simp add: registryVolume_def novol norestart)
  have e5: "createContainer containerCreateFails
     (cacheEnv noVolumeSpec (config noVolumeSpec
        (containerLabels noVolumeSpec (clock containerCreateFails (world (start emptyHost))))
        samplePorts))
     (baseHostConfig samplePorts)
     (networkingConfig (k3dNetworkName containerCreateFails (ClusterName noVolumeSpec))
        noVolumeSpec)
     defaultRegistryContainerName (world (announceCreation noVolumeSpec (start emptyHost)))
     = (Inl (Err ''the container name is already in use''), emptyHost)"
    by (simp add: containerCreateFails_def world_announceCreation start_def)
  have f1: "getRegistryContainer containerStartFails (world (start emptyHost)) = Inr ''''"
    by (simp add: getRegistryContainer_def containerStartFails_def sampleRuntime_def
        start_def emptyHost_def)
  have f2: "CreatePublishedPorts containerStartFails [registryPortSpec noVolumeSpec]
     = Inr samplePorts"
    by (simp add: p1 containerStartFails_def sampleRuntime_def samplePorts_def)
  have f3: "mergoMerge containerStartFails (baseHostConfig samplePorts)
      (HostConfig noVolumeSpec) = Inr (baseHostConfig samplePorts)"
    by (simp add: containerStartFails_def sampleRuntime_def)
  have f4: "registryVolume containerStartFails noVolumeSpec
     (autoRestart noVolumeSpec (baseHostConfig samplePorts))
     (announceCreation noVolumeSpec (start emptyHost))
     = (Inr (baseHostConfig samplePorts), announceCreation noVolumeSpec (start emptyHost))"
    by (simp add: registryVolume_def novol norestart)
  have f5: "createContainer containerStartFails
     (cacheEnv noVolumeSpec (config noVolumeSpec
        (containerLabels noVolumeSpec (clock containerStartFails (world (start emptyHost))))
        samplePorts))
     (baseHostConfig samplePorts)
     (networkingConfig (k3dNetworkName containerStartFails (ClusterName noVolumeSpec))
        noVolumeSpec)
     defaultRegistryContainerName (world (announceCreation noVolumeSpec (start emptyHost)))
     = (Inr ''c0ffee'', emptyHost\<lparr>registryNetworks := Some [''k3d-a'']\<rparr>)"
    by (simp add: containerStartFails_def sampleRuntime_def world_announceCreation start_def
        networkingConfig_def baseHostConfig_def noVolumeSpec_def sampleSpec_def emptyHost_def)
  have f6: "startContainer containerStartFails ''c0ffee''
      (emptyHost\<lparr>registryNetworks := Some [''k3d-a'']\<rparr>)
     = (Some (Err ''port is already allocated''),
        emptyHost\<lparr>registryNetworks := Some [''k3d-a'']\<rparr>)"
    by (simp add: containerStartFails_def)
  have A: "fst (createRegistry sampleRuntime bigPortSpec (start emptyHost)) = ProcessExit"
    using construction_failures [OF a1, of bigPortSpec, THEN conjunct1, rule_format, OF a2]
    by (rule conjunct1)
  have B: "fst (createRegistry mergeFails sampleSpec (start emptyHost))
     = Returns (Inl (Err ''src and dst must be of same type''))"
    by (rule construction_failures [OF b1, of sampleSpec, THEN conjunct2, THEN conjunct1,
          rule_format, OF conjI [OF b2 b3]])
  have C: "fst (createRegistry volumeLookupFails sampleSpec (start emptyHost))
     = Returns (Inl (Errorf fmtCouldntCheckVolume [RegistryVolume sampleSpec]
         (Err ''connection refused'')))"
    by (rule construction_failures [OF c1, of sampleSpec, THEN conjunct2, THEN conjunct2,
          THEN conjunct1, rule_format, OF conjI [OF c2 conjI [OF c3 conjI [OF vol c4]]]])
  have D: "fst (createRegistry volumeCreateFails sampleSpec (start emptyHost))
     = Returns (Inl (Errorf fmtCouldntCreateVolume [RegistryVolume sampleSpec]
         (Err ''no space left on device'')))"
    by (rule construction_failures [OF d1, of sampleSpec, THEN conjunct2, THEN conjunct2,
          THEN conjunct2, THEN conjunct1, rule_format,
          OF conjI [OF d2 conjI [OF d3 conjI [OF vol conjI [OF d4 d5]]]]])
  have E: "fst (createRegistry containerCreateFails noVolumeSpec (start emptyHost))
     = Returns (Inl (Errorf fmtCouldntCreateContainer [defaultRegistryContainerName]
         (Err ''the container name is already in use'')))"
    by (rule construction_failures [OF e1, of noVolumeSpec, THEN conjunct2, THEN conjunct2,
          THEN conjunct2, THEN conjunct2, THEN conjunct1, rule_format,
          OF conjI [OF e2 conjI [OF e3 conjI [OF e4 e5]]]])
  have F: "fst (createRegistry containerStartFails noVolumeSpec (start emptyHost))
     = Returns (Inl (Errorf fmtCouldntStartContainer [defaultRegistryContainerName]
         (Err ''port is already allocated'')))"
    by (rule construction_failures [OF f1, of noVolumeSpec, THEN conjunct2, THEN conjunct2,
          THEN conjunct2, THEN conjunct2, THEN conjunct2, THEN conjunct1, rule_format,
          OF conjI [OF f2 conjI [OF f3 conjI [OF f4 conjI [OF f5 f6]]]]])
  from a1 a2 A b1 b2 b3 B c1 c2 c3 vol c4 C d1 d2 d3 d4 d5 D e1 e2 e3 e4 e5 E f1 f2 f3 f4 f5 f6 F
  show ?thesis by (intro conjI) assumption+
qed

text \<open>
  C6 as the claim states it fails on the first two runs: with the host port 70000 the
  process ends and nothing is returned to the caller; with a failing merge the error
  returned is the error of the merge itself, with no message around it.
\<close>

theorem construction_failures_counterexample:
  "registryPortSpec bigPortSpec = ''0.0.0.0:70000:5000/tcp'' \<and>
   createRegistry sampleRuntime bigPortSpec (start emptyHost) =
     (ProcessExit,
      \<lparr>world = emptyHost,
        trace = [Printf Info fmtCreating [S ''registry.local'', I 70000],
                 Printf Fatal fmtBadPortSpecs
                   [S ''0.0.0.0:70000:5000/tcp'', E (Err ''invalid hostPort: 70000'')]]\<rparr>) \<and>
   createRegistry mergeFails sampleSpec (start emptyHost) =
     (Returns (Inl (Err ''src and dst must be of same type'')),
      \<lparr>world = emptyHost,
        trace = [Printf Info fmtCreating [S ''registry.local'', I 5001]]\<rparr>)"
  by (simp add: createRegistry_def getRegistryContainer_def mergeFails_def sampleRuntime_def
      start_def emptyHost_def bigPortSpec_def sampleSpec_def registryPortSpec_def itoa_def
      digits.simps defaultRegistryPort_def announceCreation_def logf_def Let_def)

subsection \<open>Shared facts about the registries document\<close>

lemma internal_address: "registryInternalAddress spec = RegistryName spec @ '':5000''"
  by (simp add: registryInternalAddress_def defaultRegistryPort_def itoa_def digits.simps)

lemma hub_not_external: "defaultDockerHubAddress \<noteq> registryExternalAddress spec"
proof
  assume "defaultDockerHubAddress = registryExternalAddress spec"
  then have "set defaultDockerHubAddress = set (registryExternalAddress spec)" by simp
  moreover have "CHR '':'' \<in> set (registryExternalAddress spec)"
    by (simp add: registryExternalAddress_def)
  moreover have "CHR '':'' \<notin> set defaultDockerHubAddress"
    by (simp add: defaultDockerHubAddress_def)
  ultimately show False by simp
qed

text \<open>The mirrors of the document once the registry is enabled.\<close>

lemma lookup_addRegistryMirrors:
  assumes "RegistryEnabled spec"
  shows "lookupMirror (addRegistryMirrors spec base) k =
     (if RegistryCacheEnabled spec \<and> k = defaultDockerHubAddress
      then Some \<lparr>Endpoints = [''http://'' @ registryInternalAddress spec]\<rparr>
      else if k = registryExternalAddress spec
      then Some \<lparr>Endpoints = [''http://'' @ registryInternalAddress spec]\<rparr>
      else lookupMirror base k)"
  using assms
  by (simp add: addRegistryMirrors_def lookupMirror_def Let_def update_conv'
      split: option.splits)

lemma keys_addRegistryMirrors:
  assumes "RegistryEnabled spec"
  shows "mirrorKeys (addRegistryMirrors spec base) =
     (if RegistryCacheEnabled spec then {defaultDockerHubAddress} else {}) \<union>
     insert (registryExternalAddress spec) (mirrorKeys base)"
  using assms
  by (auto simp add: addRegistryMirrors_def mirrorKeys_def Let_def dom_update
      split: option.splits)

lemma rest_addRegistryMirrors:
  "Configs (addRegistryMirrors spec base) = Configs base \<and>
   Auths (addRegistryMirrors spec base) = Auths base"
  by (simp add: addRegistryMirrors_def Let_def)

lemma loadPrivRegistries_file:
  assumes "RegistriesFile spec \<noteq> ''''"
    and "readFile R (RegistriesFile spec) (world s) = Inr bytes"
    and "yamlUnmarshal R bytes = Inr base"
  shows "loadPrivRegistries R spec s =
           (Inr base, logf Info fmtUsingRegistries [S (RegistriesFile spec)] s)"
  using assms by (simp add: loadPrivRegistries_def Let_def logf_def)

lemma emitter_loaded:
  assumes "loadPrivRegistries R spec s = (Inr base, s1)"
  shows "writeRegistriesConfigInContainer R spec ID s =
           deliverRegistries R ID (addRegistryMirrors spec base) s1"
  using assms by (simp add: writeRegistriesConfigInContainer_def)

subsection \<open>C2: the base mirrors are kept and the registry's mirror is added\<close>

text \<open>
  Claim C2, as the code has it. The base file decodes to a document that holds the
  mirror \<open>m\<close> for the host \<open>X\<close>, and the registry is enabled with the name \<open>R\<close> and
  the port \<open>P\<close>. Provided \<open>X\<close> is not the key \<open>R:P\<close> itself and, when the
  pull-through cache is enabled, not \<open>docker.io\<close>, the emitter serialises and copies
  into the node a document in which \<open>X\<close> still has the mirror \<open>m\<close> and in which
  \<open>R:P\<close> has the one endpoint \<open>http://R:5000\<close>. (On those two keys the registry's
  own entries replace what the base said.)
\<close>

theorem base_mirror_kept:
  assumes "RegistryEnabled spec"
    and "RegistriesFile spec \<noteq> ''''"
    and "readFile R (RegistriesFile spec) (world s) = Inr bytes"
    and "yamlUnmarshal R bytes = Inr base"
    and "lookupMirror base X = Some m"
    and "X \<noteq> RegistryName spec @ '':'' @ itoa (RegistryPort spec)"
    and "RegistryCacheEnabled spec \<longrightarrow> X \<noteq> ''docker.io''"
  shows "writeRegistriesConfigInContainer R spec ID s =
           deliverRegistries R ID (addRegistryMirrors spec base)
             (logf Info fmtUsingRegistries [S (RegistriesFile spec)] s) \<and>
         lookupMirror (addRegistryMirrors spec base) X = Some m \<and>
         lookupMirror (addRegistryMirrors spec base)
             (RegistryName spec @ '':'' @ itoa (RegistryPort spec)) =
           Some \<lparr>Endpoints = [''http://'' @ RegistryName spec @ '':5000'']\<rparr> \<and>
         (\<forall>d. yamlMarshal R (addRegistryMirrors spec base) = Inr d \<longrightarrow>
            issued s (snd (writeRegistriesConfigInContainer R spec ID s)) =
              [Printf Info fmtUsingRegistries [S (RegistriesFile spec)],
               CallCopyToContainer ID ''/etc/rancher/k3s/registries.yaml'' d])"
proof -
  have run: "writeRegistriesConfigInContainer R spec ID s =
           deliverRegistries R ID (addRegistryMirrors spec base)
             (logf Info fmtUsingRegistries [S (RegistriesFile spec)] s)"
    by (rule emitter_loaded [OF loadPrivRegistries_file [OF assms(2,3,4)]])
  have ext: "registryExternalAddress spec = RegistryName spec @ '':'' @ itoa (RegistryPort spec)"
    by (simp add: registryExternalAddress_def)
  have hub: "defaultDockerHubAddress = ''docker.io''"
    by (simp add: defaultDockerHubAddress_def)
  have kept: "lookupMirror (addRegistryMirrors spec base) X = Some m"
    using assms(5,6,7) by (auto simp add: lookup_addRegistryMirrors [OF assms(1)] ext hub)
  have "lookupMirror (addRegistryMirrors spec base) (registryExternalAddress spec) =
           Some \<lparr>Endpoints = [''http://'' @ RegistryName spec @ '':5000'']\<rparr>"
    by (simp add: lookup_addRegistryMirrors [OF assms(1)] internal_address)
  then have own: "lookupMirror (addRegistryMirrors spec base)
             (RegistryName spec @ '':'' @ itoa (RegistryPort spec)) =
           Some \<lparr>Endpoints = [''http://'' @ RegistryName spec @ '':5000'']\<rparr>"
    by (simp only: ext)
  have copied: "issued s (snd (writeRegistriesConfigInContainer R spec ID s)) =
              [Printf Info fmtUsingRegistries [S (RegistriesFile spec)],
               CallCopyToContainer ID ''/etc/rancher/k3s/registries.yaml'' d]"
    if "yamlMarshal R (addRegistryMirrors spec base) = Inr d" for d
    using that
    by (simp add: run deliverRegistries_def call_def logf_def issued_def
        defaultFullRegistriesPath_def split: prod.splits)
  from run kept own copied show ?thesis by blast
qed

text \<open>
  The sample base file redirects \<open>example.org\<close>; the registry \<open>registry.local\<close> is
  published on port 5001.
\<close>

theorem base_mirror_kept_witness:
  "RegistryEnabled sampleSpec \<and>
   RegistriesFile sampleSpec \<noteq> '''' \<and>
   readFile sampleRuntime (RegistriesFile sampleSpec) (world (start emptyHost))
     = Inr sampleBaseFile \<and>
   yamlUnmarshal sampleRuntime sampleBaseFile = Inr sampleBase \<and>
   lookupMirror sampleBase ''example.org''
     = Some \<lparr>Endpoints = [''https://mirror.example.org'']\<rparr> \<and>
   ''example.org'' \<noteq> RegistryName sampleSpec @ '':'' @ itoa (RegistryPort sampleSpec) \<and>
   \<not> RegistryCacheEnabled sampleSpec \<and>
   lookupMirror (addRegistryMirrors sampleSpec sampleBase) ''example.org''
     = Some \<lparr>Endpoints = [''https://mirror.example.org'']\<rparr> \<and>
   lookupMirror (addRegistryMirrors sampleSpec sampleBase)
       (RegistryName sampleSpec @ '':'' @ itoa (RegistryPort sampleSpec))
     = Some \<lparr>Endpoints = [''http://'' @ RegistryName sampleSpec @ '':5000'']\<rparr> \<and>
   RegistryName sampleSpec @ '':'' @ itoa (RegistryPort sampleSpec) = ''registry.local:5001''"
proof -
  have h1: "RegistryEnabled sampleSpec" and h2: "RegistriesFile sampleSpec \<noteq> ''''"
    and h7: "\<not> RegistryCacheEnabled sampleSpec"
    by (simp_all add: sampleSpec_def)
  have h3: "readFile sampleRuntime (RegistriesFile sampleSpec) (world (start emptyHost))
     = Inr sampleBaseFile"
    by (simp add: sampleRuntime_def sampleSpec_def start_def emptyHost_def)
  have h4: "yamlUnmarshal sampleRuntime sampleBaseFile = Inr sampleBase"
    by (simp add: sampleRuntime_def)
  have h5: "lookupMirror sampleBase ''example.org''
     = Some \<lparr>Endpoints = [''https://mirror.example.org'']\<rparr>"
    by (simp add: lookupMirror_def sampleBase_def)
  have key: "RegistryName sampleSpec @ '':'' @ itoa (RegistryPort sampleSpec)
      = ''registry.local:5001''"
    by (simp add: sampleSpec_def itoa_def digits.simps)
  have h6: "''example.org'' \<noteq> RegistryName sampleSpec @ '':'' @ itoa (RegistryPort sampleSpec)"
    unfolding key by simp
  have h7': "RegistryCacheEnabled sampleSpec \<longrightarrow> ''example.org'' \<noteq> ''docker.io''"
    by simp
  note T = base_mirror_kept [OF h1 h2 h3 h4 h5 h6 h7', of "''node0''"]
  from T have kept: "lookupMirror (addRegistryMirrors sampleSpec sampleBase) ''example.org''
     = Some \<lparr>Endpoints = [''https://mirror.example.org'']\<rparr>"
    by (rule conjunct2 [THEN conjunct1])
  from T have own: "lookupMirror (addRegistryMirrors sampleSpec sampleBase)
       (RegistryName sampleSpec @ '':'' @ itoa (RegistryPort sampleSpec))
     = Some \<lparr>Endpoints = [''http://'' @ RegistryName sampleSpec @ '':5000'']\<rparr>"
    by (rule conjunct2 [THEN conjunct2, THEN conjunct1])
  from h1 h2 h3 h4 h5 h6 h7 kept own key show ?thesis by (intro conjI) assumption+
qed

text \<open>
  C2 as the claim states it fails when the base file already redirects \<open>docker.io\<close>
  and the pull-through cache is enabled: the entry of the base for \<open>docker.io\<close> is
  replaced by the registry's endpoint, in the document and in the bytes copied into
  the node.
\<close>

theorem base_mirror_kept_counterexample:
  "RegistryEnabled hubSpec \<and>
   loadPrivRegistries sampleRuntime hubSpec (start emptyHost) =
     (Inr hubBase, logf Info fmtUsingRegistries [S ''/home/u/hub.yaml''] (start emptyHost)) \<and>
   lookupMirror hubBase ''docker.io'' = Some \<lparr>Endpoints = [''https://hub.example.org'']\<rparr> \<and>
   lookupMirror (addRegistryMirrors hubSpec hubBase) ''docker.io''
     = Some \<lparr>Endpoints = [''http://registry.local:5000'']\<rparr> \<and>
   trace (snd (writeRegistriesConfigInContainer sampleRuntime hubSpec ''node0''
     (start emptyHost))) =
     [Printf Info fmtUsingRegistries [S ''/home/u/hub.yaml''],
      CallCopyToContainer ''node0'' ''/etc/rancher/k3s/registries.yaml''
        ''docker.io -> http://registry.local:5000; registry.local:5001 -> http://registry.local:5000; '']"
  by (simp add: writeRegistriesConfigInContainer_def loadPrivRegistries_def
      deliverRegistries_def addRegistryMirrors_def lookupMirror_def renderRegistry_def
      registryExternalAddress_def registryInternalAddress_def defaultRegistryPort_def
      defaultDockerHubAddress_def defaultFullRegistriesPath_def itoa_def digits.simps
      hubSpec_def cacheSpec_def sampleSpec_def hubBase_def hubBaseFile_def sampleBaseFile_def
      sampleRuntime_def start_def emptyHost_def call_def logf_def Let_def)

subsection \<open>C9: the pull-through cache adds the mirror of the public hub\<close>

text \<open>
  Claim C9. The registry and the pull-through cache are enabled. The document the
  emitter serialises differs from the one it would serialise with the cache flag off
  in exactly one mirror: the key \<open>docker.io\<close>, whose endpoint list is
  \<open>http://<RegistryName>:5000\<close>, the endpoint of the registry's own entry. That key is
  never the registry's own key, and \<open>configs\<close> and \<open>auths\<close> are the same.
\<close>

theorem cache_adds_hub_mirror:
  assumes "RegistryEnabled spec" and "RegistryCacheEnabled spec"
    and "loadPrivRegistries R spec s = (Inr base, s1)"
  shows "writeRegistriesConfigInContainer R spec ID s =
           deliverRegistries R ID (addRegistryMirrors spec base) s1 \<and>
         lookupMirror (addRegistryMirrors spec base) =
           (lookupMirror (addRegistryMirrors (spec\<lparr>RegistryCacheEnabled := False\<rparr>) base))
             (''docker.io'' \<mapsto> \<lparr>Endpoints = [''http://'' @ RegistryName spec @ '':5000'']\<rparr>) \<and>
         mirrorKeys (addRegistryMirrors spec base) =
           insert ''docker.io''
             (mirrorKeys (addRegistryMirrors (spec\<lparr>RegistryCacheEnabled := False\<rparr>) base)) \<and>
         ''docker.io'' \<noteq> RegistryName spec @ '':'' @ itoa (RegistryPort spec) \<and>
         lookupMirror (addRegistryMirrors spec base)
             (RegistryName spec @ '':'' @ itoa (RegistryPort spec)) =
           Some \<lparr>Endpoints = [''http://'' @ RegistryName spec @ '':5000'']\<rparr> \<and>
         Configs (addRegistryMirrors spec base) =
           Configs (addRegistryMirrors (spec\<lparr>RegistryCacheEnabled := False\<rparr>) base) \<and>
         Auths (addRegistryMirrors spec base) =
           Auths (addRegistryMirrors (spec\<lparr>RegistryCacheEnabled := False\<rparr>) base)"
proof -
  let ?off = "spec\<lparr>RegistryCacheEnabled := False\<rparr>"
  have off: "RegistryEnabled ?off" and noc: "\<not> RegistryCacheEnabled ?off"
    using assms(1) by simp_all
  have ext: "registryExternalAddress spec = RegistryName spec @ '':'' @ itoa (RegistryPort spec)"
    and ext': "registryExternalAddress ?off = registryExternalAddress spec"
    and int': "registryInternalAddress ?off = registryInternalAddress spec"
    by (simp_all add: registryExternalAddress_def registryInternalAddress_def)
  have hub: "defaultDockerHubAddress = ''docker.io''"
    by (simp add: defaultDockerHubAddress_def)
  have run: "writeRegistriesConfigInContainer R spec ID s =
           deliverRegistries R ID (addRegistryMirrors spec base) s1"
    by (rule emitter_loaded [OF assms(3)])
  have maps: "lookupMirror (addRegistryMirrors spec base) =
           (lookupMirror (addRegistryMirrors ?off base))
             (''docker.io'' \<mapsto> \<lparr>Endpoints = [''http://'' @ RegistryName spec @ '':5000'']\<rparr>)"
  proof
    fix k
    show "lookupMirror (addRegistryMirrors spec base) k =
           ((lookupMirror (addRegistryMirrors ?off base))
             (''docker.io'' \<mapsto> \<lparr>Endpoints = [''http://'' @ RegistryName spec @ '':5000'']\<rparr>)) k"
      using assms(2) noc
      by (simp add: lookup_addRegistryMirrors [OF assms(1)] lookup_addRegistryMirrors [OF off]
          ext' int' hub [symmetric] internal_address)
  qed
  have keys: "mirrorKeys (addRegistryMirrors spec base) =
           insert ''docker.io'' (mirrorKeys (addRegistryMirrors ?off base))"
    using assms(2) noc
    by (auto simp add: keys_addRegistryMirrors [OF assms(1)] keys_addRegistryMirrors [OF off]
        ext' hub [symmetric])
  have diff: "''docker.io'' \<noteq> RegistryName spec @ '':'' @ itoa (RegistryPort spec)"
    using hub_not_external [of spec] unfolding ext hub .
  have "lookupMirror (addRegistryMirrors spec base) (registryExternalAddress spec) =
           Some \<lparr>Endpoints = [''http://'' @ RegistryName spec @ '':5000'']\<rparr>"
    by (simp add: lookup_addRegistryMirrors [OF assms(1)] internal_address)
  then have own: "lookupMirror (addRegistryMirrors spec base)
             (RegistryName spec @ '':'' @ itoa (RegistryPort spec)) =
           Some \<lparr>Endpoints = [''http://'' @ RegistryName spec @ '':5000'']\<rparr>"
    by (simp only: ext)
  have rest: "Configs (addRegistryMirrors spec base) =
           Configs (addRegistryMirrors ?off base)"
     "Auths (addRegistryMirrors spec base) = Auths (addRegistryMirrors ?off base)"
    by (simp_all add: rest_addRegistryMirrors)
  from run maps keys diff own rest show ?thesis by (intro conjI) assumption+
qed

text \<open>
  The sample specification with the cache on: the document has the three keys
  \<open>example.org\<close>, \<open>registry.local:5001\<close> and \<open>docker.io\<close>; with the cache off
  it has the first two.
\<close>

theorem cache_adds_hub_mirror_witness:
  "RegistryEnabled cacheSpec \<and> RegistryCacheEnabled cacheSpec \<and>
   loadPrivRegistries sampleRuntime cacheSpec (start emptyHost) =
     (Inr sampleBase,
      logf Info fmtUsingRegistries [S (RegistriesFile cacheSpec)] (start emptyHost)) \<and>
   mirrorKeys (addRegistryMirrors (cacheSpec\<lparr>RegistryCacheEnabled := False\<rparr>) sampleBase)
     = {''example.org'', ''registry.local:5001''} \<and>
   mirrorKeys (addRegistryMirrors cacheSpec sampleBase)
     = {''docker.io'', ''example.org'', ''registry.local:5001''} \<and>
   lookupMirror (addRegistryMirrors cacheSpec sampleBase) ''docker.io''
     = Some \<lparr>Endpoints = [''http://'' @ RegistryName cacheSpec @ '':5000'']\<rparr>"
proof -
  have h1: "RegistryEnabled cacheSpec" and h2: "RegistryCacheEnabled cacheSpec"
    by (simp_all add: cacheSpec_def sampleSpec_def)
  have h3: "loadPrivRegistries sampleRuntime cacheSpec (start emptyHost) =
     (Inr sampleBase,
      logf Info fmtUsingRegistries [S (RegistriesFile cacheSpec)] (start emptyHost))"
    by (simp add: loadPrivRegistries_def sampleRuntime_def cacheSpec_def sampleSpec_def
        start_def emptyHost_def logf_def Let_def)
  have off: "mirrorKeys (addRegistryMirrors (cacheSpec\<lparr>RegistryCacheEnabled := False\<rparr>)
      sampleBase) = {''example.org'', ''registry.local:5001''}"
    by (simp add: mirrorKeys_def addRegistryMirrors_def sampleBase_def cacheSpec_def
        sampleSpec_def registryExternalAddress_def itoa_def digits.simps Let_def)
  note T = cache_adds_hub_mirror [OF h1 h2 h3, of "''node0''"]
  from T have "mirrorKeys (addRegistryMirrors cacheSpec sampleBase) =
           insert ''docker.io''
             (mirrorKeys (addRegistryMirrors (cacheSpec\<lparr>RegistryCacheEnabled := False\<rparr>)
                sampleBase))"
    by (rule conjunct2 [THEN conjunct2, THEN conjunct1])
  then have on: "mirrorKeys (addRegistryMirrors cacheSpec sampleBase)
     = {''docker.io'', ''example.org'', ''registry.local:5001''}"
    by (simp only: off)
  from T have "lookupMirror (addRegistryMirrors cacheSpec sampleBase) =
           (lookupMirror (addRegistryMirrors (cacheSpec\<lparr>RegistryCacheEnabled := False\<rparr>)
              sampleBase))
             (''docker.io'' \<mapsto>
                \<lparr>Endpoints = [''http://'' @ RegistryName cacheSpec @ '':5000'']\<rparr>)"
    by (rule conjunct2 [THEN conjunct1])
  then have hubm: "lookupMirror (addRegistryMirrors cacheSpec sampleBase) ''docker.io''
     = Some \<lparr>Endpoints = [''http://'' @ RegistryName cacheSpec @ '':5000'']\<rparr>"
    by simp
  from h1 h2 h3 off on hubm show ?thesis by (intro conjI) assumption+
qed

subsection \<open>C10: a disabled registry adds nothing\<close>

text \<open>
  Claim C10. When the registry is not enabled, the document is left as it was loaded:
  the emitter serialises the base document, or the empty document when no base file
  is named, and the pull-through-cache flag changes nothing in what the emitter does.
\<close>

theorem disabled_registry_adds_nothing:
  assumes "\<not> RegistryEnabled spec"
  shows "addRegistryMirrors spec base = base \<and>
         writeRegistriesConfigInContainer R spec ID s =
           (case loadPrivRegistries R spec s of
              (Inl err, s1) \<Rightarrow> (Some err, s1)
            | (Inr loaded, s1) \<Rightarrow> deliverRegistries R ID loaded s1) \<and>
         (RegistriesFile spec = '''' \<longrightarrow>
            writeRegistriesConfigInContainer R spec ID s =
              deliverRegistries R ID emptyRegistry s) \<and>
         writeRegistriesConfigInContainer R (spec\<lparr>RegistryCacheEnabled := c\<rparr>) ID s =
           writeRegistriesConfigInContainer R spec ID s"
proof -
  have same: "addRegistryMirrors spec b = b" for b
    using assms by (simp add: addRegistryMirrors_def)
  have same': "addRegistryMirrors (spec\<lparr>RegistryCacheEnabled := c\<rparr>) b = b" for b
    using assms by (simp add: addRegistryMirrors_def)
  have load: "loadPrivRegistries R (spec\<lparr>RegistryCacheEnabled := c\<rparr>) s
      = loadPrivRegistries R spec s"
    by (simp add: loadPrivRegistries_def)
  have run: "writeRegistriesConfigInContainer R spec ID s =
           (case loadPrivRegistries R spec s of
              (Inl err, s1) \<Rightarrow> (Some err, s1)
            | (Inr loaded, s1) \<Rightarrow> deliverRegistries R ID loaded s1)"
    by (simp add: writeRegistriesConfigInContainer_def same split: prod.splits sum.splits)
  have bare: "writeRegistriesConfigInContainer R spec ID s =
              deliverRegistries R ID emptyRegistry s" if "RegistriesFile spec = ''''"
    using that by (simp add: run loadPrivRegistries_def)
  have flag: "writeRegistriesConfigInContainer R (spec\<lparr>RegistryCacheEnabled := c\<rparr>) ID s =
           writeRegistriesConfigInContainer R spec ID s"
    by (simp add: writeRegistriesConfigInContainer_def same same' load
        split: prod.splits sum.splits)
  from same [of base] run bare flag show ?thesis by blast
qed

text \<open>
  With the registry disabled and the cache flag set, the node receives the base
  document when the base file is named, and the empty document when it is not.
\<close>

theorem disabled_registry_adds_nothing_witness:
  "\<not> RegistryEnabled disabledSpec \<and> RegistryCacheEnabled disabledSpec \<and>
   loadPrivRegistries sampleRuntime disabledSpec (start emptyHost) =
     (Inr sampleBase,
      logf Info fmtUsingRegistries [S (RegistriesFile disabledSpec)] (start emptyHost)) \<and>
   writeRegistriesConfigInContainer sampleRuntime disabledSpec ''node0'' (start emptyHost) =
     deliverRegistries sampleRuntime ''node0'' sampleBase
       (logf Info fmtUsingRegistries [S (RegistriesFile disabledSpec)] (start emptyHost)) \<and>
   \<not> RegistryEnabled bareSpec \<and> RegistryCacheEnabled bareSpec \<and>
   RegistriesFile bareSpec = '''' \<and>
   writeRegistriesConfigInContainer sampleRuntime bareSpec ''node0'' (start emptyHost) =
     deliverRegistries sampleRuntime ''node0'' emptyRegistry (start emptyHost)"
proof -
  have h1: "\<not> RegistryEnabled disabledSpec" and h2: "RegistryCacheEnabled disabledSpec"
    and g1: "\<not> RegistryEnabled bareSpec" and g2: "RegistryCacheEnabled bareSpec"
    and g3: "RegistriesFile bareSpec = ''''"
    by (simp_all add: bareSpec_def disabledSpec_def cacheSpec_def sampleSpec_def)
  have h3: "loadPrivRegistries sampleRuntime disabledSpec (start emptyHost) =
     (Inr sampleBase,
      logf Info fmtUsingRegistries [S (RegistriesFile disabledSpec)] (start emptyHost))"
    by (simp add: loadPrivRegistries_def sampleRuntime_def disabledSpec_def cacheSpec_def
        sampleSpec_def start_def emptyHost_def logf_def Let_def)
  have A: "writeRegistriesConfigInContainer sampleRuntime disabledSpec ''node0''
      (start emptyHost) =
     deliverRegistries sampleRuntime ''node0'' sampleBase
       (logf Info fmtUsingRegistries [S (RegistriesFile disabledSpec)] (start emptyHost))"
    using disabled_registry_adds_nothing [OF h1, of sampleBase sampleRuntime "''node0''"
        "start emptyHost" True, THEN conjunct2, THEN conjunct1]
    by (simp add: h3)
  have B: "writeRegistriesConfigInContainer sampleRuntime bareSpec ''node0''
      (start emptyHost) = deliverRegistries sampleRuntime ''node0'' emptyRegistry (start emptyHost)"
    using disabled_registry_adds_nothing [OF g1, of sampleBase sampleRuntime "''node0''"
        "start emptyHost" True, THEN conjunct2, THEN conjunct2, THEN conjunct1] g3
    by (rule mp)
  from h1 h2 h3 A g1 g2 g3 B show ?thesis by (intro conjI) assumption+
qed

end
